theory Spec2Isabelle
  imports Main "HOL-Library.Sublist" "HOL-Library.AList"
begin

section \<open>Go strings: \<open>strings.TrimSpace\<close> and \<open>strings.TrimPrefix\<close>\<close>

text \<open>
  A Go string is a sequence of bytes, here a \<open>string\<close>. \<open>strings.TrimSpace\<close> removes
  leading and trailing white space as \<open>unicode.IsSpace\<close> defines it, reading the bytes as
  UTF-8. The white-space code points are U+0009..U+000D, U+0020, U+0085, U+00A0, U+1680,
  U+2000..U+200A, U+2028, U+2029, U+202F, U+205F and U+3000; \<open>spaceEncodings\<close> lists their
  UTF-8 encodings. A byte that does not start one of them (an invalid byte decodes to
  U+FFFD) stops the trimming.
\<close>

type_synonym bytes = string
type_synonym error = string

definition asciiSpace :: "string list" where
  "asciiSpace = [[CHR 0x09], [CHR 0x0A], [CHR 0x0B], [CHR 0x0C], [CHR 0x0D], [CHR 0x20]]"

definition unicodeSpace :: "string list" where
  "unicodeSpace =
    [[CHR 0xC2, CHR 0x85], [CHR 0xC2, CHR 0xA0],
     [CHR 0xE1, CHR 0x9A, CHR 0x80],
     [CHR 0xE2, CHR 0x80, CHR 0x80], [CHR 0xE2, CHR 0x80, CHR 0x81],
     [CHR 0xE2, CHR 0x80, CHR 0x82], [CHR 0xE2, CHR 0x80, CHR 0x83],
     [CHR 0xE2, CHR 0x80, CHR 0x84], [CHR 0xE2, CHR 0x80, CHR 0x85],
     [CHR 0xE2, CHR 0x80, CHR 0x86], [CHR 0xE2, CHR 0x80, CHR 0x87],
     [CHR 0xE2, CHR 0x80, CHR 0x88], [CHR 0xE2, CHR 0x80, CHR 0x89],
     [CHR 0xE2, CHR 0x80, CHR 0x8A],
     [CHR 0xE2, CHR 0x80, CHR 0xA8], [CHR 0xE2, CHR 0x80, CHR 0xA9],
     [CHR 0xE2, CHR 0x80, CHR 0xAF],
     [CHR 0xE2, CHR 0x81, CHR 0x9F],
     [CHR 0xE3, CHR 0x80, CHR 0x80]]"

definition spaceEncodings :: "string list" where
  "spaceEncodings = asciiSpace @ unicodeSpace"

definition spacePrefix :: "string \<Rightarrow> string option" where
  "spacePrefix s = find (\<lambda>e. prefix e s) spaceEncodings"

definition spaceSuffix :: "string \<Rightarrow> string option" where
  "spaceSuffix s = find (\<lambda>e. suffix e s) spaceEncodings"

lemma spaceEncodings_nonempty: "e \<in> set spaceEncodings \<Longrightarrow> e \<noteq> []"
  by (auto simp: spaceEncodings_def asciiSpace_def unicodeSpace_def)

lemma spacePrefix_Some: "spacePrefix s = Some e \<Longrightarrow> e \<in> set spaceEncodings \<and> prefix e s"
  unfolding spacePrefix_def by (auto simp: find_Some_iff)

lemma spaceSuffix_Some: "spaceSuffix s = Some e \<Longrightarrow> e \<in> set spaceEncodings \<and> suffix e s"
  unfolding spaceSuffix_def by (auto simp: find_Some_iff)

function TrimLeftSpace :: "string \<Rightarrow> string" where
  "TrimLeftSpace s =
     (case spacePrefix s of
        None \<Rightarrow> s
      | Some e \<Rightarrow> TrimLeftSpace (drop (length e) s))"
  by pat_completeness auto
termination
proof (relation "measure length")
  show "wf (measure length)" by simp
next
  fix s e assume "spacePrefix s = Some e"
  then have "e \<noteq> []" and "prefix e s"
    using spacePrefix_Some spaceEncodings_nonempty by blast+
  then show "(drop (length e) s, s) \<in> measure length"
    by (cases s) (auto simp: prefix_def)
qed

function TrimRightSpace :: "string \<Rightarrow> string" where
  "TrimRightSpace s =
     (case spaceSuffix s of
        None \<Rightarrow> s
      | Some e \<Rightarrow> TrimRightSpace (take (length s - length e) s))"
  by pat_completeness auto
termination
proof (relation "measure length")
  show "wf (measure length)" by simp
next
  fix s e assume "spaceSuffix s = Some e"
  then have "e \<noteq> []" and "suffix e s"
    using spaceSuffix_Some spaceEncodings_nonempty by blast+
  then show "(take (length s - length e) s, s) \<in> measure length"
    by (cases s) (auto simp: suffix_def)
qed

definition TrimSpace :: "string \<Rightarrow> string" where
  "TrimSpace s = TrimRightSpace (TrimLeftSpace s)"

definition TrimPrefix :: "string \<Rightarrow> string \<Rightarrow> string" where
  "TrimPrefix s p = (if prefix p s then drop (length p) s else s)"


section \<open>Data model of package \<open>bootstrap\<close>\<close>

text \<open>
  \<open>tls.Certificate.PrivateKey\<close> has the interface type \<open>crypto.PrivateKey\<close>, which any
  value inhabits. The only dynamic type that the type assertion in \<open>handleBootstrapAuth\<close>
  accepts is \<open>ed25519.PrivateKey\<close>; \<open>OtherPrivateKey\<close> is a private key of another algorithm
  (an RSA key, say), \<open>NotAPrivateKey\<close> a value that is no key at all and cannot sign.
\<close>

datatype PrivateKey = Ed25519PrivateKey bytes | OtherPrivateKey bytes | NotAPrivateKey

record Certificate =
  PrivateKey :: PrivateKey

text \<open>
  Modelled from the spec: \<open>tokens.Token\<close> is declared outside the files at hand; the data
  model gives a bootstrap token a secret byte string and an identifier from which the
  non-secret hex identifier is derived.
\<close>

record Token =
  TokenID :: bytes
  TokenSecret :: bytes

record BootstrapJoinResponse =
  Signatures :: "(string \<times> bytes) list"

record BootstrapAuthRequest =
  ClientID :: string
  ClientPubKey :: bytes

record BootstrapAuthResponse =
  ServerPubKey :: bytes

record EphemeralKeyPair =
  EphemeralPrivateKey :: bytes
  PublicKey :: bytes

datatype PeerType = PeerTypeClient | PeerTypeServer

record PeerPublicKey =
  PeerKey :: bytes
  PeerType :: PeerType

datatype Keyring = Keyring "bytes list"

definition New :: "bytes list \<Rightarrow> Keyring" where
  "New keys = Keyring keys"

subsection \<open>Collaborators\<close>

text \<open>
  The stores are Go interfaces. They are records of operations on the state \<open>'s\<close> of the
  backing store; every operation may fail with an \<open>error\<close>. The read operations return no
  state, the two writes (\<open>CreateTenant\<close>, \<open>Put\<close>) return the state they leave behind.
\<close>

record 's TokenStore =
  ListTokens :: "'s \<Rightarrow> error + Token list"
  TokenExists :: "'s \<Rightarrow> string \<Rightarrow> error + bool"

record 's KeyringStore =
  Put :: "'s \<Rightarrow> Keyring \<Rightarrow> error + 's"

record 's TenantStore =
  TenantExists :: "'s \<Rightarrow> string \<Rightarrow> error + bool"
  CreateTenant :: "'s \<Rightarrow> string \<Rightarrow> error + 's"
  KeyringStore :: "'s \<Rightarrow> string \<Rightarrow> error + 's KeyringStore"

record 's ServerConfig =
  Certificate :: Certificate
  TokenStore :: "'s TokenStore"
  TenantStore :: "'s TenantStore"

record Request =
  Authorization :: string
  ContentType :: string
  Body :: bytes

text \<open>
  The functions of the packages \<open>tokens\<close>, \<open>jws\<close>, \<open>ed25519\<close>, \<open>ecdh\<close>, \<open>keyring\<close> and of the
  fiber context that the handlers call, none of them in the files at hand: they are
  parameters of the model. \<open>Sign\<close> is the signing primitive (private key, then message),
  \<open>Verify\<close> takes the serialized assertion and the public key (the algorithm is fixed
  to EdDSA), \<open>BodyParser\<close> decodes the body as its content type says.
  \<open>c.Get("Authorization")\<close> is the empty string when the header is absent.
\<close>

record Libs =
  HexID :: "Token \<Rightarrow> string"
  Sign :: "PrivateKey \<Rightarrow> bytes \<Rightarrow> error + bytes"
  ParseJSON :: "bytes \<Rightarrow> error + Token"
  Public :: "bytes \<Rightarrow> bytes"
  Verify :: "bytes \<Rightarrow> bytes \<Rightarrow> error + bytes"
  BodyParser :: "string \<Rightarrow> bytes \<Rightarrow> error + BootstrapAuthRequest"
  DeriveSharedSecret :: "EphemeralKeyPair \<Rightarrow> PeerPublicKey \<Rightarrow> error + bytes"
  NewSharedKeys :: "bytes \<Rightarrow> bytes"

text \<open>
  Modelled from the spec: \<open>token.SignDetached\<close> is a method of package \<open>tokens\<close>, which is
  not in the files at hand. The spec has the coordinator compute, for each token, "a
  detached signature over that token's secret using the gateway identity key": the
  signing primitive applied to the key and the token's secret.
\<close>

definition SignDetached :: "Libs \<Rightarrow> Token \<Rightarrow> PrivateKey \<Rightarrow> error + bytes" where
  "SignDetached L token key = Sign L key (TokenSecret token)"

subsection \<open>HTTP responses\<close>

abbreviation StatusOK :: nat where "StatusOK \<equiv> 200"
abbreviation StatusBadRequest :: nat where "StatusBadRequest \<equiv> 400"
abbreviation StatusUnauthorized :: nat where "StatusUnauthorized \<equiv> 401"
abbreviation StatusMethodNotAllowed :: nat where "StatusMethodNotAllowed \<equiv> 405"
abbreviation StatusConflict :: nat where "StatusConflict \<equiv> 409"
abbreviation StatusInternalServerError :: nat where "StatusInternalServerError \<equiv> 500"

datatype ResponseBody =
  SendString string
| JoinJSON BootstrapJoinResponse
| AuthJSON BootstrapAuthResponse

record Response =
  StatusCode :: nat
  ResponseBody :: ResponseBody

text \<open>
  \<open>c.SendStatus(code)\<close> sets the status and, the body being empty, sends the status
  message as the body. Only the codes the handlers send are tabulated.
\<close>

definition StatusMessage :: "nat \<Rightarrow> string" where
  "StatusMessage code =
     (if code = StatusOK then ''OK''
      else if code = StatusBadRequest then ''Bad Request''
      else if code = StatusUnauthorized then ''Unauthorized''
      else if code = StatusMethodNotAllowed then ''Method Not Allowed''
      else if code = StatusConflict then ''Conflict''
      else if code = StatusInternalServerError then ''Internal Server Error''
      else [])"

definition SendStatus :: "nat \<Rightarrow> Response" where
  "SendStatus code = \<lparr>StatusCode = code, ResponseBody = SendString (StatusMessage code)\<rparr>"

text \<open>A handler either writes a response or panics, which takes the process down.\<close>

datatype Outcome = Respond Response | Panic string

text \<open>
  What a call of \<open>handleBootstrapAuth\<close> leaves behind: the outcome, the state of the
  backing store, and the lines printed to the request logger.
\<close>

record 's Result =
  outcome :: Outcome
  store :: "'s"
  logged :: "string list"

section \<open>The handlers\<close>

subsection \<open>Join\<close>

text \<open>
  The loop of \<open>bootstrapJoinResponse\<close> over the listed tokens. \<open>signatures\<close> is a Go map:
  an association list with one entry a key, written with \<open>AList.update\<close>. The first
  signing error ends the loop.
\<close>

fun signTokens ::
  "Libs \<Rightarrow> PrivateKey \<Rightarrow> Token list \<Rightarrow> (string \<times> bytes) list \<Rightarrow> error + (string \<times> bytes) list"
where
  "signTokens L key [] signatures = Inr signatures"
| "signTokens L key (token # tokens) signatures =
     (case SignDetached L token key of
        Inl err \<Rightarrow> Inl (''error signing token: '' @ err)
      | Inr sig \<Rightarrow> signTokens L key tokens (AList.update (HexID L token) sig signatures))"

definition bootstrapJoinResponse ::
  "Libs \<Rightarrow> 's ServerConfig \<Rightarrow> 's \<Rightarrow> error + BootstrapJoinResponse"
where
  "bootstrapJoinResponse L h st =
     (case ListTokens (TokenStore h) st of
        Inl err \<Rightarrow> Inl err
      | Inr tokens \<Rightarrow>
          (case signTokens L (PrivateKey (Certificate h)) tokens [] of
             Inl err \<Rightarrow> Inl err
           | Inr signatures \<Rightarrow> Inr \<lparr>Signatures = signatures\<rparr>))"

definition handleBootstrapJoin :: "Libs \<Rightarrow> 's ServerConfig \<Rightarrow> 's \<Rightarrow> Request \<Rightarrow> Outcome" where
  "handleBootstrapJoin L h st c =
     (let authHeader = TrimSpace (Authorization c) in
      if authHeader = [] then
        (case bootstrapJoinResponse L h st of
           Inl err \<Rightarrow> Respond (SendStatus StatusInternalServerError)
         | Inr resp \<Rightarrow>
             if length (Signatures resp) = 0
             then Respond (SendStatus StatusMethodNotAllowed)
             else Respond \<lparr>StatusCode = StatusOK, ResponseBody = JoinJSON resp\<rparr>)
      else Respond (SendStatus StatusBadRequest))"

subsection \<open>Auth\<close>

text \<open>
  \<open>handleBootstrapAuth\<close> is one function in the source. The model cuts it into four
  definitions, each the rest of the function from one point on: \<open>createTenant\<close> from
  the construction of the keyring, \<open>keyExchange\<close> from the drawing of the ephemeral key
  pair, \<open>clientRequest\<close> from the parsing of the body, \<open>checkToken\<close> from the parsing of
  the verified payload. \<open>ecdh.NewEphemeralKeyPair()\<close> draws a fresh key pair; the pair
  drawn for the request is the argument \<open>ekp\<close>. The format of the first log line has a
  verb and no operand. A failed type assertion panics with a message that names the
  dynamic type of the key; the model writes it without that name.
\<close>

definition createTenant ::
  "Libs \<Rightarrow> 's ServerConfig \<Rightarrow> EphemeralKeyPair \<Rightarrow> 's \<Rightarrow> BootstrapAuthRequest \<Rightarrow> bytes \<Rightarrow> 's Result"
where
  "createTenant L h ekp st clientReq sharedSecret =
     (let kr = New [NewSharedKeys L sharedSecret] in
      case CreateTenant (TenantStore h) st (ClientID clientReq) of
        Inl err \<Rightarrow>
          \<lparr>outcome = Respond (SendStatus StatusInternalServerError), store = st,
           logged = [''error creating tenant: '' @ err]\<rparr>
      | Inr st1 \<Rightarrow>
          (case KeyringStore (TenantStore h) st1 (ClientID clientReq) of
             Inl err \<Rightarrow>
               \<lparr>outcome = Respond (SendStatus StatusInternalServerError), store = st1,
                logged = [''error getting keyring store: '' @ err]\<rparr>
           | Inr krStore \<Rightarrow>
               (case Put krStore st1 kr of
                  Inl err \<Rightarrow>
                    \<lparr>outcome = Respond (SendStatus StatusInternalServerError), store = st1,
                     logged = [''error storing keyring: '' @ err]\<rparr>
                | Inr st2 \<Rightarrow>
                    \<lparr>outcome = Respond \<lparr>StatusCode = StatusOK,
                        ResponseBody = AuthJSON \<lparr>ServerPubKey = PublicKey ekp\<rparr>\<rparr>,
                     store = st2, logged = []\<rparr>)))"

definition keyExchange ::
  "Libs \<Rightarrow> 's ServerConfig \<Rightarrow> EphemeralKeyPair \<Rightarrow> 's \<Rightarrow> BootstrapAuthRequest \<Rightarrow> 's Result"
where
  "keyExchange L h ekp st clientReq =
     (case DeriveSharedSecret L ekp
             \<lparr>PeerKey = ClientPubKey clientReq, PeerType = PeerTypeClient\<rparr> of
        Inl err \<Rightarrow>
          \<lparr>outcome = Respond (SendStatus StatusInternalServerError), store = st,
           logged = [''error computing shared secret: '' @ err]\<rparr>
      | Inr sharedSecret \<Rightarrow> createTenant L h ekp st clientReq sharedSecret)"

definition clientRequest ::
  "Libs \<Rightarrow> 's ServerConfig \<Rightarrow> EphemeralKeyPair \<Rightarrow> 's \<Rightarrow> Request \<Rightarrow> 's Result"
where
  "clientRequest L h ekp st c =
     (case BodyParser L (ContentType c) (Body c) of
        Inl err \<Rightarrow>
          \<lparr>outcome = Respond \<lparr>StatusCode = StatusBadRequest,
              ResponseBody = SendString ''Invalid request body''\<rparr>,
           store = st, logged = []\<rparr>
      | Inr clientReq \<Rightarrow>
          (case TenantExists (TenantStore h) st (ClientID clientReq) of
             Inl err \<Rightarrow>
               \<lparr>outcome = Respond (SendStatus StatusInternalServerError), store = st,
                logged = [''error checking if tenant exists: '' @ err]\<rparr>
           | Inr ok \<Rightarrow>
               if ok then
                 \<lparr>outcome = Respond \<lparr>StatusCode = StatusConflict,
                     ResponseBody = SendString ''ID already in use''\<rparr>,
                  store = st, logged = []\<rparr>
               else keyExchange L h ekp st clientReq))"

definition checkToken ::
  "Libs \<Rightarrow> 's ServerConfig \<Rightarrow> EphemeralKeyPair \<Rightarrow> 's \<Rightarrow> Request \<Rightarrow> bytes \<Rightarrow> 's Result"
where
  "checkToken L h ekp st c payload =
     (case ParseJSON L payload of
        Inl err \<Rightarrow>
          \<lparr>outcome = Panic ''bug: jws.Verify returned a malformed token'',
           store = st, logged = []\<rparr>
      | Inr token \<Rightarrow>
          (case TokenExists (TokenStore h) st (HexID L token) of
             Inl err \<Rightarrow>
               \<lparr>outcome = Respond (SendStatus StatusInternalServerError), store = st,
                logged = [''error checking if token exists: %!v(MISSING)'']\<rparr>
           | Inr ok \<Rightarrow>
               if \<not> ok then
                 \<lparr>outcome = Respond (SendStatus StatusUnauthorized), store = st, logged = []\<rparr>
               else clientRequest L h ekp st c))"

definition handleBootstrapAuth ::
  "Libs \<Rightarrow> 's ServerConfig \<Rightarrow> EphemeralKeyPair \<Rightarrow> 's \<Rightarrow> Request \<Rightarrow> 's Result"
where
  "handleBootstrapAuth L h ekp st c =
     (let authHeader = TrimSpace (Authorization c) in
      if TrimSpace authHeader = [] then
        \<lparr>outcome = Respond (SendStatus StatusUnauthorized), store = st, logged = []\<rparr>
      else
        let bearerToken = TrimSpace (TrimPrefix authHeader ''Bearer'') in
        case PrivateKey (Certificate h) of
          OtherPrivateKey k \<Rightarrow>
            \<lparr>outcome = Panic ''interface conversion: interface {} is not ed25519.PrivateKey'',
             store = st, logged = []\<rparr>
        | NotAPrivateKey \<Rightarrow>
            \<lparr>outcome = Panic ''interface conversion: interface {} is not ed25519.PrivateKey'',
             store = st, logged = []\<rparr>
        | Ed25519PrivateKey edPrivKey \<Rightarrow>
            (case Verify L bearerToken (Public L edPrivKey) of
               Inl err \<Rightarrow>
                 \<lparr>outcome = Respond (SendStatus StatusUnauthorized), store = st, logged = []\<rparr>
             | Inr payload \<Rightarrow> checkToken L h ekp st c payload))"


subsection \<open>The first four gates of Auth\<close>

text \<open>
  A request carries a valid assertion when \<open>handleBootstrapAuth\<close> reaches the parsing
  of the body: the header is not blank, the certificate key is an Ed25519 key, the
  assertion verifies under its public half, the verified payload parses to a token, and
  \<open>TokenStore\<close> knows the token's identifier.
\<close>

definition validAssertion :: "Libs \<Rightarrow> 's ServerConfig \<Rightarrow> 's \<Rightarrow> Request \<Rightarrow> bool" where
  "validAssertion L h st c =
     (TrimSpace (Authorization c) \<noteq> [] \<and>
      (case PrivateKey (Certificate h) of
         OtherPrivateKey k \<Rightarrow> False
       | NotAPrivateKey \<Rightarrow> False
       | Ed25519PrivateKey k \<Rightarrow>
           (case Verify L (TrimSpace (TrimPrefix (TrimSpace (Authorization c)) ''Bearer''))
                   (Public L k) of
              Inl err \<Rightarrow> False
            | Inr payload \<Rightarrow>
                (case ParseJSON L payload of
                   Inl err \<Rightarrow> False
                 | Inr token \<Rightarrow> TokenExists (TokenStore h) st (HexID L token) = Inr True))))"

section \<open>A store and collaborators to run the handlers on\<close>

text \<open>
  Modelled from the spec: the implementations of \<open>storage.TokenStore\<close> and
  \<open>storage.TenantStore\<close> are not in the files at hand. The spec gives them the
  operations \<open>ListActiveTokens\<close>, \<open>TokenExistsByID\<close>, \<open>TenantExists\<close>,
  \<open>CreateTenant(ctx, clientID) \<rightarrow> success | AlreadyExists\<close>, an atomic create that fails
  if the ClientID already exists rather than overwrite, and \<open>KeyringStoreFor\<close>, whose
  handle persists a tenant's keyring. \<open>MemStore\<close> is the state of such a store, held in
  memory; its operations fail only where the spec says so.
\<close>

record MemStore =
  tokens :: "Token list"
  tenants :: "string list"
  keyrings :: "(string \<times> Keyring) list"

definition memTokenStore :: "(Token \<Rightarrow> string) \<Rightarrow> MemStore TokenStore" where
  "memTokenStore hexID =
     \<lparr>ListTokens = (\<lambda>st. Inr (tokens st)),
      TokenExists = (\<lambda>st tid. Inr (tid \<in> set (map hexID (tokens st))))\<rparr>"

definition memKeyringStore :: "string \<Rightarrow> MemStore KeyringStore" where
  "memKeyringStore cid =
     \<lparr>Put = (\<lambda>st kr. Inr (st\<lparr>keyrings := AList.update cid kr (keyrings st)\<rparr>))\<rparr>"

definition memTenantStore :: "MemStore TenantStore" where
  "memTenantStore =
     \<lparr>TenantExists = (\<lambda>st cid. Inr (cid \<in> set (tenants st))),
      CreateTenant = (\<lambda>st cid.
        if cid \<in> set (tenants st) then Inl ''already exists''
        else Inr (st\<lparr>tenants := cid # tenants st\<rparr>)),
      KeyringStore = (\<lambda>st cid. Inr (memKeyringStore cid))\<rparr>"

text \<open>
  Stand-ins for the library functions, small enough to evaluate: a signature is the
  key followed by the message, and a value that is no key does not sign; three assertions
  verify (the third to a payload that is no token), a body is the ClientID, a colon and
  the client's public key, and the derived secret is a concatenation.
\<close>

definition demoLibs :: Libs where
  "demoLibs =
     \<lparr>HexID = TokenID,
      Sign = (\<lambda>key msg.
        case key of
          Ed25519PrivateKey k \<Rightarrow> Inr (k @ msg)
        | OtherPrivateKey k \<Rightarrow> Inr (k @ msg)
        | NotAPrivateKey \<Rightarrow> Inl ''invalid key type''),
      ParseJSON = (\<lambda>payload.
        if payload = ''ab12:tok-123''
        then Inr \<lparr>TokenID = ''ab12'', TokenSecret = ''tok-123''\<rparr>
        else if payload = ''cd34:tok-456''
        then Inr \<lparr>TokenID = ''cd34'', TokenSecret = ''tok-456''\<rparr>
        else Inl ''malformed token''),
      Public = (\<lambda>k. k),
      Verify = (\<lambda>buf key.
        if buf = ''jws-1'' then Inr ''ab12:tok-123''
        else if buf = ''jws-2'' then Inr ''cd34:tok-456''
        else if buf = ''jws-3'' then Inr ''{''
        else Inl ''failed to verify message''),
      BodyParser = (\<lambda>ctype body.
        if CHR '':'' \<notin> set body then Inl ''unexpected end of JSON input''
        else Inr \<lparr>ClientID = takeWhile (\<lambda>c. c \<noteq> CHR '':'') body,
                 ClientPubKey = tl (dropWhile (\<lambda>c. c \<noteq> CHR '':'') body)\<rparr>),
      DeriveSharedSecret = (\<lambda>ekp peer.
        if PeerKey peer = [] then Inl ''invalid public key''
        else Inr (EphemeralPrivateKey ekp @ PeerKey peer)),
      NewSharedKeys = (\<lambda>secret. secret)\<rparr>"

definition demoConfig :: "MemStore ServerConfig" where
  "demoConfig =
     \<lparr>Certificate = \<lparr>PrivateKey = Ed25519PrivateKey ''gateway-key''\<rparr>,
      TokenStore = memTokenStore TokenID,
      TenantStore = memTenantStore\<rparr>"

definition demoStore :: MemStore where
  "demoStore =
     \<lparr>tokens = [\<lparr>TokenID = ''ab12'', TokenSecret = ''tok-123''\<rparr>],
      tenants = [], keyrings = []\<rparr>"

definition demoKeyPair :: EphemeralKeyPair where
  "demoKeyPair = \<lparr>EphemeralPrivateKey = ''eph-priv'', PublicKey = ''eph-pub''\<rparr>"

definition demoRequest :: "string \<Rightarrow> bytes \<Rightarrow> Request" where
  "demoRequest auth body =
     \<lparr>Authorization = auth, ContentType = ''application/json'', Body = body\<rparr>"


definition demoTenantStore :: MemStore where
  "demoTenantStore =
     demoStore\<lparr>tenants := [''agent-1''],
       keyrings := [(''agent-1'', Keyring [''eph-privclient-pub''])]\<rparr>"

text \<open>
  A tenant store whose existence check does not see the tenants: what a request reads
  that checks before another request's creation lands.
\<close>

definition staleConfig :: "MemStore ServerConfig" where
  "staleConfig =
     demoConfig\<lparr>TenantStore := memTenantStore\<lparr>TenantExists := (\<lambda>st cid. Inr False)\<rparr>\<rparr>"


lemmas demo_defs = demoLibs_def demoConfig_def demoStore_def demoKeyPair_def demoRequest_def
  memTokenStore_def memTenantStore_def memKeyringStore_def demoTenantStore_def staleConfig_def

section \<open>Concurrent Auth calls\<close>

text \<open>
  Calls that run at the same time share nothing but the backing store, and the store's
  operations are atomic. A call is therefore a sequence of at most five steps, one a
  store operation, the handler's own computation up to the next store operation going
  with it: \<open>TokenExists\<close>, \<open>TenantExists\<close>, \<open>CreateTenant\<close>, \<open>KeyringStore\<close>, \<open>Put\<close>. The
  phase of a call says which store operation comes next and holds the local variables
  the rest of the handler needs. The step functions repeat the text of
  \<open>handleBootstrapAuth\<close>; \<open>steps_handleBootstrapAuth\<close> below shows that the five steps of
  one call, run without interruption, are the handler.
\<close>

datatype 's Phase =
    AtTokenExists
  | AtTenantExists
  | AtCreateTenant BootstrapAuthRequest bytes
  | AtKeyringStore BootstrapAuthRequest Keyring
  | AtPut "'s KeyringStore" Keyring
  | Returned Outcome "string list"

record 's Call =
  request :: Request
  keyPair :: EphemeralKeyPair
  phase :: "'s Phase"

definition stepParse :: "Libs \<Rightarrow> 's ServerConfig \<Rightarrow> 's \<Rightarrow> bytes \<Rightarrow> 's Phase" where
  "stepParse L h st payload =
     (case ParseJSON L payload of
        Inl err \<Rightarrow> Returned (Panic ''bug: jws.Verify returned a malformed token'') []
      | Inr token \<Rightarrow>
          (case TokenExists (TokenStore h) st (HexID L token) of
             Inl err \<Rightarrow>
               Returned (Respond (SendStatus StatusInternalServerError))
                 [''error checking if token exists: %!v(MISSING)'']
           | Inr ok \<Rightarrow>
               if \<not> ok then Returned (Respond (SendStatus StatusUnauthorized)) []
               else AtTenantExists))"

definition stepTokenExists :: "Libs \<Rightarrow> 's ServerConfig \<Rightarrow> 's \<Rightarrow> Request \<Rightarrow> 's Phase" where
  "stepTokenExists L h st c =
     (let authHeader = TrimSpace (Authorization c) in
      if TrimSpace authHeader = [] then Returned (Respond (SendStatus StatusUnauthorized)) []
      else
        let bearerToken = TrimSpace (TrimPrefix authHeader ''Bearer'') in
        case PrivateKey (Certificate h) of
          OtherPrivateKey k \<Rightarrow>
            Returned (Panic ''interface conversion: interface {} is not ed25519.PrivateKey'') []
        | NotAPrivateKey \<Rightarrow>
            Returned (Panic ''interface conversion: interface {} is not ed25519.PrivateKey'') []
        | Ed25519PrivateKey edPrivKey \<Rightarrow>
            (case Verify L bearerToken (Public L edPrivKey) of
               Inl err \<Rightarrow> Returned (Respond (SendStatus StatusUnauthorized)) []
             | Inr payload \<Rightarrow> stepParse L h st payload))"

definition stepExchange :: "Libs \<Rightarrow> EphemeralKeyPair \<Rightarrow> BootstrapAuthRequest \<Rightarrow> 's Phase" where
  "stepExchange L ekp clientReq =
     (case DeriveSharedSecret L ekp
             \<lparr>PeerKey = ClientPubKey clientReq, PeerType = PeerTypeClient\<rparr> of
        Inl err \<Rightarrow>
          Returned (Respond (SendStatus StatusInternalServerError))
            [''error computing shared secret: '' @ err]
      | Inr sharedSecret \<Rightarrow> AtCreateTenant clientReq sharedSecret)"

definition stepTenantExists ::
  "Libs \<Rightarrow> 's ServerConfig \<Rightarrow> EphemeralKeyPair \<Rightarrow> 's \<Rightarrow> Request \<Rightarrow> 's Phase"
where
  "stepTenantExists L h ekp st c =
     (case BodyParser L (ContentType c) (Body c) of
        Inl err \<Rightarrow>
          Returned (Respond \<lparr>StatusCode = StatusBadRequest,
              ResponseBody = SendString ''Invalid request body''\<rparr>) []
      | Inr clientReq \<Rightarrow>
          (case TenantExists (TenantStore h) st (ClientID clientReq) of
             Inl err \<Rightarrow>
               Returned (Respond (SendStatus StatusInternalServerError))
                 [''error checking if tenant exists: '' @ err]
           | Inr ok \<Rightarrow>
               if ok then
                 Returned (Respond \<lparr>StatusCode = StatusConflict,
                     ResponseBody = SendString ''ID already in use''\<rparr>) []
               else stepExchange L ekp clientReq))"

definition stepCreateTenant ::
  "Libs \<Rightarrow> 's ServerConfig \<Rightarrow> 's \<Rightarrow> BootstrapAuthRequest \<Rightarrow> bytes \<Rightarrow> 's \<times> 's Phase"
where
  "stepCreateTenant L h st clientReq sharedSecret =
     (let kr = New [NewSharedKeys L sharedSecret] in
      case CreateTenant (TenantStore h) st (ClientID clientReq) of
        Inl err \<Rightarrow>
          (st, Returned (Respond (SendStatus StatusInternalServerError))
                 [''error creating tenant: '' @ err])
      | Inr st1 \<Rightarrow> (st1, AtKeyringStore clientReq kr))"

definition stepKeyringStore ::
  "'s ServerConfig \<Rightarrow> 's \<Rightarrow> BootstrapAuthRequest \<Rightarrow> Keyring \<Rightarrow> 's Phase"
where
  "stepKeyringStore h st clientReq kr =
     (case KeyringStore (TenantStore h) st (ClientID clientReq) of
        Inl err \<Rightarrow>
          Returned (Respond (SendStatus StatusInternalServerError))
            [''error getting keyring store: '' @ err]
      | Inr krStore \<Rightarrow> AtPut krStore kr)"

definition stepPut ::
  "EphemeralKeyPair \<Rightarrow> 's \<Rightarrow> 's KeyringStore \<Rightarrow> Keyring \<Rightarrow> 's \<times> 's Phase"
where
  "stepPut ekp st krStore kr =
     (case Put krStore st kr of
        Inl err \<Rightarrow>
          (st, Returned (Respond (SendStatus StatusInternalServerError))
                 [''error storing keyring: '' @ err])
      | Inr st2 \<Rightarrow>
          (st2, Returned (Respond \<lparr>StatusCode = StatusOK,
                   ResponseBody = AuthJSON \<lparr>ServerPubKey = PublicKey ekp\<rparr>\<rparr>) []))"

fun stepPhase ::
  "Libs \<Rightarrow> 's ServerConfig \<Rightarrow> Request \<Rightarrow> EphemeralKeyPair \<Rightarrow> 's \<Rightarrow> 's Phase \<Rightarrow> 's \<times> 's Phase"
where
  "stepPhase L h c ekp st AtTokenExists = (st, stepTokenExists L h st c)"
| "stepPhase L h c ekp st AtTenantExists = (st, stepTenantExists L h ekp st c)"
| "stepPhase L h c ekp st (AtCreateTenant clientReq sharedSecret) =
     stepCreateTenant L h st clientReq sharedSecret"
| "stepPhase L h c ekp st (AtKeyringStore clientReq kr) = (st, stepKeyringStore h st clientReq kr)"
| "stepPhase L h c ekp st (AtPut krStore kr) = stepPut ekp st krStore kr"
| "stepPhase L h c ekp st (Returned out lg) = (st, Returned out lg)"

definition step :: "Libs \<Rightarrow> 's ServerConfig \<Rightarrow> 's \<Rightarrow> 's Call \<Rightarrow> 's \<times> 's Call" where
  "step L h st call =
     (case stepPhase L h (request call) (keyPair call) st (phase call) of
        (st', p) \<Rightarrow> (st', call\<lparr>phase := p\<rparr>))"

fun steps :: "Libs \<Rightarrow> 's ServerConfig \<Rightarrow> nat \<Rightarrow> 's \<Rightarrow> 's Call \<Rightarrow> 's \<times> 's Call" where
  "steps L h 0 st call = (st, call)"
| "steps L h (Suc n) st call = (case step L h st call of (st', call') \<Rightarrow> steps L h n st' call')"

text \<open>
  A schedule names, step by step, the call that moves; it interleaves the calls in any
  order. A call that has returned stays as it is.
\<close>

fun run :: "Libs \<Rightarrow> 's ServerConfig \<Rightarrow> nat list \<Rightarrow> 's \<Rightarrow> 's Call list \<Rightarrow> 's \<times> 's Call list" where
  "run L h [] st calls = (st, calls)"
| "run L h (i # sched) st calls =
     (if i < length calls then
        (case step L h st (calls ! i) of
           (st', call') \<Rightarrow> run L h sched st' (calls[i := call']))
      else run L h sched st calls)"

definition newCall :: "Request \<Rightarrow> EphemeralKeyPair \<Rightarrow> 's Call" where
  "newCall c ekp = \<lparr>request = c, keyPair = ekp, phase = AtTokenExists\<rparr>"



text \<open>
  What the handler returns when it is resumed, alone, from a phase; and the number of
  steps a phase is from returning.
\<close>

fun resume ::
  "Libs \<Rightarrow> 's ServerConfig \<Rightarrow> Request \<Rightarrow> EphemeralKeyPair \<Rightarrow> 's \<Rightarrow> 's Phase \<Rightarrow> 's Result"
where
  "resume L h c ekp st AtTokenExists = handleBootstrapAuth L h ekp st c"
| "resume L h c ekp st AtTenantExists = clientRequest L h ekp st c"
| "resume L h c ekp st (AtCreateTenant clientReq sharedSecret) =
     createTenant L h ekp st clientReq sharedSecret"
| "resume L h c ekp st (AtKeyringStore clientReq kr) =
     (case KeyringStore (TenantStore h) st (ClientID clientReq) of
        Inl err \<Rightarrow>
          \<lparr>outcome = Respond (SendStatus StatusInternalServerError), store = st,
           logged = [''error getting keyring store: '' @ err]\<rparr>
      | Inr krStore \<Rightarrow>
          (case Put krStore st kr of
             Inl err \<Rightarrow>
               \<lparr>outcome = Respond (SendStatus StatusInternalServerError), store = st,
                logged = [''error storing keyring: '' @ err]\<rparr>
           | Inr st2 \<Rightarrow>
               \<lparr>outcome = Respond \<lparr>StatusCode = StatusOK,
                   ResponseBody = AuthJSON \<lparr>ServerPubKey = PublicKey ekp\<rparr>\<rparr>,
                store = st2, logged = []\<rparr>))"
| "resume L h c ekp st (AtPut krStore kr) =
     (case Put krStore st kr of
        Inl err \<Rightarrow>
          \<lparr>outcome = Respond (SendStatus StatusInternalServerError), store = st,
           logged = [''error storing keyring: '' @ err]\<rparr>
      | Inr st2 \<Rightarrow>
          \<lparr>outcome = Respond \<lparr>StatusCode = StatusOK,
              ResponseBody = AuthJSON \<lparr>ServerPubKey = PublicKey ekp\<rparr>\<rparr>,
           store = st2, logged = []\<rparr>)"
| "resume L h c ekp st (Returned out lg) = \<lparr>outcome = out, store = st, logged = lg\<rparr>"

fun rank :: "'s Phase \<Rightarrow> nat" where
  "rank AtTokenExists = 5"
| "rank AtTenantExists = 4"
| "rank (AtCreateTenant clientReq sharedSecret) = 3"
| "rank (AtKeyringStore clientReq kr) = 2"
| "rank (AtPut krStore kr) = 1"
| "rank (Returned out lg) = 0"












text \<open>What the calls have returned, to evaluate a run.\<close>

fun returned :: "'s Phase \<Rightarrow> (Outcome \<times> string list) option" where
  "returned (Returned out lg) = Some (out, lg)"
| "returned p = None"



section \<open>Properties of \<open>TrimSpace\<close>\<close>

lemma spacePrefix_None_iff: "spacePrefix s = None \<longleftrightarrow> (\<forall>e\<in>set spaceEncodings. \<not> prefix e s)"
  unfolding spacePrefix_def by (auto simp: find_None_iff)

lemma spaceSuffix_None_iff: "spaceSuffix s = None \<longleftrightarrow> (\<forall>e\<in>set spaceEncodings. \<not> suffix e s)"
  unfolding spaceSuffix_def by (auto simp: find_None_iff)

lemma TrimLeftSpace_no_prefix: "spacePrefix (TrimLeftSpace s) = None"
  by (induction s rule: TrimLeftSpace.induct) (simp split: option.splits)

lemma TrimRightSpace_no_suffix: "spaceSuffix (TrimRightSpace s) = None"
  by (induction s rule: TrimRightSpace.induct) (simp split: option.splits)

lemma TrimRightSpace_prefix: "prefix (TrimRightSpace s) s"
proof (induction s rule: TrimRightSpace.induct)
  case (1 s)
  show ?case
  proof (cases "spaceSuffix s")
    case None
    then show ?thesis by simp
  next
    case (Some e)
    with 1 have "prefix (TrimRightSpace (take (length s - length e) s)) (take (length s - length e) s)"
      by simp
    then have "prefix (TrimRightSpace (take (length s - length e) s)) s"
      using take_is_prefix prefix_order.trans by blast
    with Some show ?thesis by simp
  qed
qed

lemma TrimLeftSpace_id: "spacePrefix s = None \<Longrightarrow> TrimLeftSpace s = s"
  by simp

lemma TrimRightSpace_id: "spaceSuffix s = None \<Longrightarrow> TrimRightSpace s = s"
  by simp

lemma TrimSpace_no_prefix: "spacePrefix (TrimSpace s) = None"
proof -
  have "\<forall>e\<in>set spaceEncodings. \<not> prefix e (TrimLeftSpace s)"
    using TrimLeftSpace_no_prefix spacePrefix_None_iff by blast
  moreover have "prefix (TrimSpace s) (TrimLeftSpace s)"
    unfolding TrimSpace_def by (rule TrimRightSpace_prefix)
  ultimately have "\<forall>e\<in>set spaceEncodings. \<not> prefix e (TrimSpace s)"
    using prefix_order.trans by blast
  then show ?thesis by (simp add: spacePrefix_None_iff)
qed

lemma TrimSpace_no_suffix: "spaceSuffix (TrimSpace s) = None"
  unfolding TrimSpace_def by (rule TrimRightSpace_no_suffix)

lemma TrimSpace_idem [simp]: "TrimSpace (TrimSpace s) = TrimSpace s"
proof -
  have "TrimLeftSpace (TrimSpace s) = TrimSpace s"
    using TrimSpace_no_prefix by simp
  moreover have "TrimRightSpace (TrimSpace s) = TrimSpace s"
    using TrimSpace_no_suffix by simp
  ultimately show ?thesis by (simp add: TrimSpace_def)
qed

lemma TrimSpace_Nil [simp]: "TrimSpace [] = []"
  by code_simp

section \<open>The stages of Auth\<close>

lemma handleBootstrapAuth_verified:
  assumes "TrimSpace (Authorization c) \<noteq> []"
    and "PrivateKey (Certificate h) = Ed25519PrivateKey k"
    and "Verify L (TrimSpace (TrimPrefix (TrimSpace (Authorization c)) ''Bearer''))
           (Public L k) = Inr payload"
  shows "handleBootstrapAuth L h ekp st c = checkToken L h ekp st c payload"
  using assms by (simp add: handleBootstrapAuth_def Let_def)

lemma handleBootstrapAuth_valid:
  assumes "validAssertion L h st c"
  shows "handleBootstrapAuth L h ekp st c = clientRequest L h ekp st c"
  using assms
  by (auto simp: validAssertion_def handleBootstrapAuth_def checkToken_def Let_def
           split: PrivateKey.splits sum.splits)

lemma store_createTenant_cases:
  "store (keyExchange L h ekp st req) \<noteq> st \<Longrightarrow>
     \<exists>secret st1. DeriveSharedSecret L ekp
        \<lparr>PeerKey = ClientPubKey req, PeerType = PeerTypeClient\<rparr> = Inr secret
      \<and> CreateTenant (TenantStore h) st (ClientID req) = Inr st1"
  by (auto simp: keyExchange_def createTenant_def Let_def split: sum.splits)

lemma store_clientRequest_cases:
  "store (clientRequest L h ekp st c) \<noteq> st \<Longrightarrow>
     \<exists>req. BodyParser L (ContentType c) (Body c) = Inr req
       \<and> TenantExists (TenantStore h) st (ClientID req) = Inr False
       \<and> store (keyExchange L h ekp st req) \<noteq> st"
  by (auto simp: clientRequest_def split: sum.splits if_splits)

lemma store_handleBootstrapAuth_cases:
  "store (handleBootstrapAuth L h ekp st c) \<noteq> st \<Longrightarrow>
     validAssertion L h st c \<and> store (clientRequest L h ekp st c) \<noteq> st"
  by (auto simp: handleBootstrapAuth_def checkToken_def validAssertion_def Let_def
           split: sum.splits if_splits PrivateKey.splits)

section \<open>Claims\<close>

lemma demo_trim [simp]:
  "TrimSpace ''Bearer jws-1'' = ''Bearer jws-1''"
  "TrimSpace (TrimPrefix ''Bearer jws-1'' ''Bearer'') = ''jws-1''"
  "TrimSpace ''Bearer jws-2'' = ''Bearer jws-2''"
  "TrimSpace (TrimPrefix ''Bearer jws-2'' ''Bearer'') = ''jws-2''"
  "TrimSpace ''Bearer jws-3'' = ''Bearer jws-3''"
  "TrimSpace (TrimPrefix ''Bearer jws-3'' ''Bearer'') = ''jws-3''"
  "TrimSpace ''Bearer forged'' = ''Bearer forged''"
  "TrimSpace (TrimPrefix ''Bearer forged'' ''Bearer'') = ''forged''"
  by code_simp+

lemma demo_valid:
  "validAssertion demoLibs (demoConfig\<lparr>TenantStore := ts\<rparr>)
     (st\<lparr>tokens := [\<lparr>TokenID = ''ab12'', TokenSecret = ''tok-123''\<rparr>]\<rparr>)
     (demoRequest ''Bearer jws-1'' body)"
  by (simp add: validAssertion_def demoLibs_def demoConfig_def memTokenStore_def
        demoRequest_def)

lemma demoStore_tokens:
  "demoStore = demoStore\<lparr>tokens := [\<lparr>TokenID = ''ab12'', TokenSecret = ''tok-123''\<rparr>]\<rparr>"
  "demoTenantStore = demoTenantStore\<lparr>tokens := [\<lparr>TokenID = ''ab12'', TokenSecret = ''tok-123''\<rparr>]\<rparr>"
  by (simp_all add: demoStore_def demoTenantStore_def)

lemma demoConfig_stores:
  "demoConfig = demoConfig\<lparr>TenantStore := memTenantStore\<rparr>"
  "staleConfig = demoConfig\<lparr>TenantStore := memTenantStore\<lparr>TenantExists := (\<lambda>st cid. Inr False)\<rparr>\<rparr>"
  by (simp_all add: demoConfig_def staleConfig_def)

text \<open>
  C7. When the active-token set is empty, Join with no credential answers 405 Method Not
  Allowed ("not accepting bootstrap requests"): a client error, not a success with
  signatures, and not the 401 of Auth.
\<close>

theorem Join_empty_token_set:
  assumes "TrimSpace (Authorization c) = []"
    and "ListTokens (TokenStore h) st = Inr []"
  shows "handleBootstrapJoin L h st c = Respond (SendStatus StatusMethodNotAllowed)
    \<and> 400 \<le> StatusCode (SendStatus StatusMethodNotAllowed)
    \<and> StatusCode (SendStatus StatusMethodNotAllowed) < 500
    \<and> (\<forall>resp. handleBootstrapJoin L h st c
           \<noteq> Respond \<lparr>StatusCode = StatusOK, ResponseBody = JoinJSON resp\<rparr>)
    \<and> handleBootstrapJoin L h st c \<noteq> Respond (SendStatus StatusUnauthorized)"
  using assms
  by (simp add: handleBootstrapJoin_def bootstrapJoinResponse_def SendStatus_def)

theorem Join_empty_token_set_witness:
  "TrimSpace (Authorization (demoRequest [] [])) = []
   \<and> ListTokens (TokenStore demoConfig) (demoStore\<lparr>tokens := []\<rparr>) = Inr []
   \<and> handleBootstrapJoin demoLibs demoConfig (demoStore\<lparr>tokens := []\<rparr>) (demoRequest [] [])
       = Respond \<lparr>StatusCode = 405, ResponseBody = SendString ''Method Not Allowed''\<rparr>"
proof -
  have h1: "TrimSpace (Authorization (demoRequest [] [])) = []"
    by (simp add: demoRequest_def)
  have h2: "ListTokens (TokenStore demoConfig) (demoStore\<lparr>tokens := []\<rparr>) = Inr []"
    by (simp add: demo_defs)
  show ?thesis
    using Join_empty_token_set [OF h1 h2, of demoLibs] h1 h2
    by (simp add: SendStatus_def StatusMessage_def)
qed

text \<open>
  C5. An Auth request with no Authorization header, one whose assertion fails signature
  verification, and one whose verified token is not in TokenStore get the same result:
  401 Unauthorized with the same body, nothing logged, the store untouched.
\<close>

theorem Auth_unauthenticated_uniform:
  assumes "Authorization c = []
     \<or> (\<exists>k err. PrivateKey (Certificate h) = Ed25519PrivateKey k
           \<and> Verify L (TrimSpace (TrimPrefix (TrimSpace (Authorization c)) ''Bearer''))
                (Public L k) = Inl err)
     \<or> (\<exists>k payload token. PrivateKey (Certificate h) = Ed25519PrivateKey k
           \<and> Verify L (TrimSpace (TrimPrefix (TrimSpace (Authorization c)) ''Bearer''))
                (Public L k) = Inr payload
           \<and> ParseJSON L payload = Inr token
           \<and> TokenExists (TokenStore h) st (HexID L token) = Inr False)"
  shows "handleBootstrapAuth L h ekp st c =
           \<lparr>outcome = Respond (SendStatus StatusUnauthorized), store = st, logged = []\<rparr>"
  using assms
  by (auto simp: handleBootstrapAuth_def checkToken_def Let_def)

theorem Auth_unauthenticated_uniform_witness:
  "handleBootstrapAuth demoLibs demoConfig demoKeyPair demoStore (demoRequest [] ''agent-1:client-pub'')
     = \<lparr>outcome = Respond (SendStatus StatusUnauthorized), store = demoStore, logged = []\<rparr>
   \<and> handleBootstrapAuth demoLibs demoConfig demoKeyPair demoStore
        (demoRequest ''Bearer forged'' ''agent-1:client-pub'')
     = \<lparr>outcome = Respond (SendStatus StatusUnauthorized), store = demoStore, logged = []\<rparr>
   \<and> handleBootstrapAuth demoLibs demoConfig demoKeyPair demoStore
        (demoRequest ''Bearer jws-2'' ''agent-1:client-pub'')
     = \<lparr>outcome = Respond (SendStatus StatusUnauthorized), store = demoStore, logged = []\<rparr>"
proof -
  have a: "Authorization (demoRequest [] ''agent-1:client-pub'') = []"
    by (simp add: demoRequest_def)
  have b: "PrivateKey (Certificate demoConfig) = Ed25519PrivateKey ''gateway-key''
      \<and> Verify demoLibs
          (TrimSpace (TrimPrefix (TrimSpace
             (Authorization (demoRequest ''Bearer forged'' ''agent-1:client-pub''))) ''Bearer''))
          (Public demoLibs ''gateway-key'') = Inl ''failed to verify message''"
    by (simp add: demo_defs)
  have c: "PrivateKey (Certificate demoConfig) = Ed25519PrivateKey ''gateway-key''
      \<and> Verify demoLibs
          (TrimSpace (TrimPrefix (TrimSpace
             (Authorization (demoRequest ''Bearer jws-2'' ''agent-1:client-pub''))) ''Bearer''))
          (Public demoLibs ''gateway-key'') = Inr ''cd34:tok-456''
      \<and> ParseJSON demoLibs ''cd34:tok-456'' = Inr \<lparr>TokenID = ''cd34'', TokenSecret = ''tok-456''\<rparr>
      \<and> TokenExists (TokenStore demoConfig) demoStore
           (HexID demoLibs \<lparr>TokenID = ''cd34'', TokenSecret = ''tok-456''\<rparr>) = Inr False"
    by (simp add: demo_defs)
  have r1: "handleBootstrapAuth demoLibs demoConfig demoKeyPair demoStore
        (demoRequest [] ''agent-1:client-pub'')
     = \<lparr>outcome = Respond (SendStatus StatusUnauthorized), store = demoStore, logged = []\<rparr>"
    by (rule Auth_unauthenticated_uniform, rule disjI1, rule a)
  have r2: "handleBootstrapAuth demoLibs demoConfig demoKeyPair demoStore
        (demoRequest ''Bearer forged'' ''agent-1:client-pub'')
     = \<lparr>outcome = Respond (SendStatus StatusUnauthorized), store = demoStore, logged = []\<rparr>"
    by (rule Auth_unauthenticated_uniform, rule disjI2, rule disjI1, intro exI, rule b)
  have r3: "handleBootstrapAuth demoLibs demoConfig demoKeyPair demoStore
        (demoRequest ''Bearer jws-2'' ''agent-1:client-pub'')
     = \<lparr>outcome = Respond (SendStatus StatusUnauthorized), store = demoStore, logged = []\<rparr>"
    by (rule Auth_unauthenticated_uniform, rule disjI2, rule disjI2, intro exI, rule c)
  from r1 r2 r3 show ?thesis by simp
qed

text \<open>
  C6, as the claim states it, fails: a header of one space is not empty, and Join
  lists the tokens and answers 200 with the signatures.
\<close>

theorem Join_blank_header_counterexample:
  "Authorization (demoRequest '' '' []) \<noteq> []
   \<and> handleBootstrapJoin demoLibs demoConfig demoStore (demoRequest '' '' [])
       = Respond \<lparr>StatusCode = StatusOK, ResponseBody =
           JoinJSON \<lparr>Signatures = [(''ab12'', ''gateway-keytok-123'')]\<rparr>\<rparr>
   \<and> handleBootstrapJoin demoLibs demoConfig demoStore (demoRequest '' '' [])
       \<noteq> Respond (SendStatus StatusBadRequest)"
proof -
  have "handleBootstrapJoin demoLibs demoConfig demoStore (demoRequest '' '' [])
       = Respond \<lparr>StatusCode = StatusOK, ResponseBody =
           JoinJSON \<lparr>Signatures = [(''ab12'', ''gateway-keytok-123'')]\<rparr>\<rparr>"
    by code_simp
  then show ?thesis by (simp add: demoRequest_def SendStatus_def)
qed

text \<open>
  C6, amended. For every Authorization header that is not empty once its surrounding
  white space is trimmed, Join answers 400 Bad Request, whatever the header holds and
  whatever the token store and the signing function are.
\<close>

theorem Join_credential_rejected:
  assumes "TrimSpace (Authorization c) \<noteq> []"
  shows "handleBootstrapJoin L h st c = Respond (SendStatus StatusBadRequest)"
  using assms by (simp add: handleBootstrapJoin_def)

theorem Join_credential_rejected_witness:
  "TrimSpace (Authorization (demoRequest ''Bearer jws-1'' [])) \<noteq> []
   \<and> handleBootstrapJoin demoLibs demoConfig demoStore (demoRequest ''Bearer jws-1'' [])
       = Respond \<lparr>StatusCode = 400, ResponseBody = SendString ''Bad Request''\<rparr>"
proof -
  have h: "TrimSpace (Authorization (demoRequest ''Bearer jws-1'' [])) \<noteq> []"
    by (simp add: demoRequest_def)
  show ?thesis
    using Join_credential_rejected [OF h, of demoLibs demoConfig demoStore] h
    by (simp add: SendStatus_def StatusMessage_def)
qed

text \<open>
  C2, as the claim states it, fails: where the verified payload does not parse, the
  handler panics. No response is written, so no internal-error response either.
\<close>

theorem Auth_unparseable_payload_counterexample:
  "Verify demoLibs ''jws-3'' (Public demoLibs ''gateway-key'') = Inr ''{''
   \<and> ParseJSON demoLibs ''{'' = Inl ''malformed token''
   \<and> handleBootstrapAuth demoLibs demoConfig demoKeyPair demoStore
        (demoRequest ''Bearer jws-3'' ''agent-1:client-pub'')
       = \<lparr>outcome = Panic ''bug: jws.Verify returned a malformed token'',
          store = demoStore, logged = []\<rparr>"
proof -
  have "handleBootstrapAuth demoLibs demoConfig demoKeyPair demoStore
        (demoRequest ''Bearer jws-3'' ''agent-1:client-pub'')
       = \<lparr>outcome = Panic ''bug: jws.Verify returned a malformed token'',
          store = demoStore, logged = []\<rparr>"
    by code_simp
  then show ?thesis by (simp add: demoLibs_def)
qed

text \<open>
  C2, amended. If the assertion verifies and its payload fails to parse into a token,
  Auth panics with the message "bug: jws.Verify returned a malformed token": it writes
  no response, logs nothing through the request logger and leaves the store as it was.
\<close>

theorem Auth_unparseable_payload_panics:
  assumes "TrimSpace (Authorization c) \<noteq> []"
    and "PrivateKey (Certificate h) = Ed25519PrivateKey k"
    and "Verify L (TrimSpace (TrimPrefix (TrimSpace (Authorization c)) ''Bearer''))
           (Public L k) = Inr payload"
    and "ParseJSON L payload = Inl err"
  shows "handleBootstrapAuth L h ekp st c =
           \<lparr>outcome = Panic ''bug: jws.Verify returned a malformed token'',
            store = st, logged = []\<rparr>"
  using assms by (simp add: handleBootstrapAuth_verified checkToken_def)

theorem Auth_unparseable_payload_panics_witness:
  "TrimSpace (Authorization (demoRequest ''Bearer jws-3'' ''agent-2:client-pub'')) \<noteq> []
   \<and> ParseJSON demoLibs ''{'' = Inl ''malformed token''
   \<and> handleBootstrapAuth demoLibs demoConfig demoKeyPair demoStore
        (demoRequest ''Bearer jws-3'' ''agent-2:client-pub'')
       = \<lparr>outcome = Panic ''bug: jws.Verify returned a malformed token'',
          store = demoStore, logged = []\<rparr>"
proof -
  have h1: "TrimSpace (Authorization (demoRequest ''Bearer jws-3'' ''agent-2:client-pub'')) \<noteq> []"
    by (simp add: demoRequest_def)
  have h2: "PrivateKey (Certificate demoConfig) = Ed25519PrivateKey ''gateway-key''"
    by (simp add: demoConfig_def)
  have h3: "Verify demoLibs
      (TrimSpace (TrimPrefix (TrimSpace
         (Authorization (demoRequest ''Bearer jws-3'' ''agent-2:client-pub''))) ''Bearer''))
      (Public demoLibs ''gateway-key'') = Inr ''{''"
    by (simp add: demoLibs_def demoRequest_def)
  have h4: "ParseJSON demoLibs ''{'' = Inl ''malformed token''"
    by (simp add: demoLibs_def)
  show ?thesis
    using Auth_unparseable_payload_panics [OF h1 h2 h3 h4, of demoKeyPair demoStore] h1 h4
    by simp
qed

text \<open>
  C3, as the claim states it, fails: where \<open>CreateTenant\<close> fails because the ClientID
  already exists, Auth answers 500 Internal Server Error, not 409 Conflict. First the
  whole handler, on a store whose existence check missed the tenant; then the rest of
  the handler from the construction of the keyring on, in a state where the tenant exists.
\<close>

theorem Auth_create_existing_counterexample:
  "CreateTenant (TenantStore staleConfig) demoTenantStore ''agent-1'' = Inl ''already exists''
   \<and> handleBootstrapAuth demoLibs staleConfig demoKeyPair demoTenantStore
        (demoRequest ''Bearer jws-1'' ''agent-1:client-pub'')
       = \<lparr>outcome = Respond \<lparr>StatusCode = StatusInternalServerError,
                               ResponseBody = SendString ''Internal Server Error''\<rparr>,
          store = demoTenantStore,
          logged = [''error creating tenant: already exists'']\<rparr>
   \<and> createTenant demoLibs demoConfig demoKeyPair demoTenantStore
        \<lparr>ClientID = ''agent-1'', ClientPubKey = ''client-pub''\<rparr> ''eph-privclient-pub''
       = \<lparr>outcome = Respond \<lparr>StatusCode = StatusInternalServerError,
                               ResponseBody = SendString ''Internal Server Error''\<rparr>,
          store = demoTenantStore,
          logged = [''error creating tenant: already exists'']\<rparr>"
proof -
  have a: "CreateTenant (TenantStore staleConfig) demoTenantStore ''agent-1''
      = Inl ''already exists''"
    by (simp add: demo_defs)
  have b: "handleBootstrapAuth demoLibs staleConfig demoKeyPair demoTenantStore
        (demoRequest ''Bearer jws-1'' ''agent-1:client-pub'')
       = \<lparr>outcome = Respond \<lparr>StatusCode = StatusInternalServerError,
                               ResponseBody = SendString ''Internal Server Error''\<rparr>,
          store = demoTenantStore,
          logged = [''error creating tenant: already exists'']\<rparr>"
    by code_simp
  have c: "createTenant demoLibs demoConfig demoKeyPair demoTenantStore
        \<lparr>ClientID = ''agent-1'', ClientPubKey = ''client-pub''\<rparr> ''eph-privclient-pub''
       = \<lparr>outcome = Respond \<lparr>StatusCode = StatusInternalServerError,
                               ResponseBody = SendString ''Internal Server Error''\<rparr>,
          store = demoTenantStore,
          logged = [''error creating tenant: already exists'']\<rparr>"
    by code_simp
  from a b c show ?thesis by simp
qed

text \<open>
  C3, amended. When \<open>CreateTenant\<close> fails, for whatever reason, Auth answers 500 Internal
  Server Error, logs "error creating tenant: " and the error, and leaves the store as it
  was: it stores no keyring.
\<close>

theorem Auth_create_failure_is_internal_error:
  assumes "validAssertion L h st c"
    and "BodyParser L (ContentType c) (Body c) = Inr clientReq"
    and "TenantExists (TenantStore h) st (ClientID clientReq) = Inr False"
    and "DeriveSharedSecret L ekp
           \<lparr>PeerKey = ClientPubKey clientReq, PeerType = PeerTypeClient\<rparr> = Inr sharedSecret"
    and "CreateTenant (TenantStore h) st (ClientID clientReq) = Inl err"
  shows "handleBootstrapAuth L h ekp st c =
           \<lparr>outcome = Respond (SendStatus StatusInternalServerError), store = st,
            logged = [''error creating tenant: '' @ err]\<rparr>"
  using assms
  by (simp add: handleBootstrapAuth_valid clientRequest_def keyExchange_def createTenant_def)

theorem Auth_create_failure_is_internal_error_witness:
  "CreateTenant (TenantStore staleConfig) demoTenantStore ''agent-1'' = Inl ''already exists''
   \<and> handleBootstrapAuth demoLibs staleConfig demoKeyPair demoTenantStore
        (demoRequest ''Bearer jws-1'' ''agent-1:other-pub'')
       = \<lparr>outcome = Respond (SendStatus StatusInternalServerError), store = demoTenantStore,
          logged = [''error creating tenant: already exists'']\<rparr>"
proof -
  let ?c = "demoRequest ''Bearer jws-1'' ''agent-1:other-pub''"
  let ?req = "\<lparr>ClientID = ''agent-1'', ClientPubKey = ''other-pub''\<rparr>"
  have h1: "validAssertion demoLibs staleConfig demoTenantStore ?c"
    using demo_valid [of "memTenantStore\<lparr>TenantExists := (\<lambda>st cid. Inr False)\<rparr>" demoTenantStore]
    by (simp add: demoConfig_stores(2) demoStore_tokens(2) [symmetric])
  have h2: "BodyParser demoLibs (ContentType ?c) (Body ?c) = Inr ?req"
    by (simp add: demoLibs_def demoRequest_def)
  have h3: "TenantExists (TenantStore staleConfig) demoTenantStore (ClientID ?req) = Inr False"
    by (simp add: demo_defs)
  have h4: "DeriveSharedSecret demoLibs demoKeyPair
      \<lparr>PeerKey = ClientPubKey ?req, PeerType = PeerTypeClient\<rparr> = Inr ''eph-privother-pub''"
    by (simp add: demoLibs_def demoKeyPair_def)
  have h5: "CreateTenant (TenantStore staleConfig) demoTenantStore (ClientID ?req)
      = Inl ''already exists''"
    by (simp add: demo_defs)
  show ?thesis
    using Auth_create_failure_is_internal_error [OF h1 h2 h3 h4 h5] h5 by simp
qed

text \<open>
  C8. In a state where the tenant store reports the ClientID as existing, a well-formed
  Auth call with a valid assertion and that ClientID fails with 409 Conflict, whatever
  the ephemeral key pair and the client's public key are, and the store, with the
  tenant and its keyring, is as it was.
\<close>

theorem Auth_replay_conflict:
  assumes "validAssertion L h st c"
    and "BodyParser L (ContentType c) (Body c) = Inr clientReq"
    and "TenantExists (TenantStore h) st (ClientID clientReq) = Inr True"
  shows "handleBootstrapAuth L h ekp st c =
           \<lparr>outcome = Respond \<lparr>StatusCode = StatusConflict,
               ResponseBody = SendString ''ID already in use''\<rparr>,
            store = st, logged = []\<rparr>"
  using assms by (simp add: handleBootstrapAuth_valid clientRequest_def)

theorem Auth_replay_conflict_witness:
  "handleBootstrapAuth demoLibs demoConfig demoKeyPair demoStore
       (demoRequest ''Bearer jws-1'' ''agent-1:client-pub'')
     = \<lparr>outcome = Respond \<lparr>StatusCode = StatusOK,
            ResponseBody = AuthJSON \<lparr>ServerPubKey = ''eph-pub''\<rparr>\<rparr>,
        store = demoTenantStore, logged = []\<rparr>
   \<and> handleBootstrapAuth demoLibs demoConfig
       \<lparr>EphemeralPrivateKey = ''eph-priv-2'', PublicKey = ''eph-pub-2''\<rparr> demoTenantStore
       (demoRequest ''Bearer jws-1'' ''agent-1:client-pub'')
     = \<lparr>outcome = Respond \<lparr>StatusCode = StatusConflict,
            ResponseBody = SendString ''ID already in use''\<rparr>,
        store = demoTenantStore, logged = []\<rparr>"
proof -
  let ?req = "\<lparr>ClientID = ''agent-1'', ClientPubKey = ''client-pub''\<rparr>"
  have first: "handleBootstrapAuth demoLibs demoConfig demoKeyPair demoStore
       (demoRequest ''Bearer jws-1'' ''agent-1:client-pub'')
     = \<lparr>outcome = Respond \<lparr>StatusCode = StatusOK,
            ResponseBody = AuthJSON \<lparr>ServerPubKey = ''eph-pub''\<rparr>\<rparr>,
        store = demoTenantStore, logged = []\<rparr>"
    by code_simp
  have h1: "validAssertion demoLibs demoConfig demoTenantStore
      (demoRequest ''Bearer jws-1'' ''agent-1:client-pub'')"
    using demo_valid [of memTenantStore demoTenantStore]
    by (simp add: demoConfig_stores(1) [symmetric] demoStore_tokens(2) [symmetric]
          demoRequest_def)
  have h2: "BodyParser demoLibs (ContentType (demoRequest ''Bearer jws-1'' ''agent-1:client-pub''))
      (Body (demoRequest ''Bearer jws-1'' ''agent-1:client-pub'')) = Inr ?req"
    by (simp add: demoLibs_def demoRequest_def)
  have h3: "TenantExists (TenantStore demoConfig) demoTenantStore (ClientID ?req) = Inr True"
    by (simp add: demo_defs)
  show ?thesis
    using Auth_replay_conflict [OF h1 h2 h3] first by simp
qed

text \<open>
  C9. An Auth request that fails before the tenant is created (blank or missing header,
  assertion that does not verify, token that TokenStore does not know, body that does
  not parse, ClientID that already exists, key exchange that fails) leaves the backing
  store, with its tokens, tenants and keyrings, exactly as it was.
\<close>

theorem Auth_failure_leaves_store:
  assumes "TrimSpace (Authorization c) = []
     \<or> (\<exists>k err. PrivateKey (Certificate h) = Ed25519PrivateKey k
           \<and> Verify L (TrimSpace (TrimPrefix (TrimSpace (Authorization c)) ''Bearer''))
                (Public L k) = Inl err)
     \<or> (\<exists>k payload token. PrivateKey (Certificate h) = Ed25519PrivateKey k
           \<and> Verify L (TrimSpace (TrimPrefix (TrimSpace (Authorization c)) ''Bearer''))
                (Public L k) = Inr payload
           \<and> ParseJSON L payload = Inr token
           \<and> TokenExists (TokenStore h) st (HexID L token) = Inr False)
     \<or> (\<exists>err. BodyParser L (ContentType c) (Body c) = Inl err)
     \<or> (\<exists>clientReq. BodyParser L (ContentType c) (Body c) = Inr clientReq
           \<and> TenantExists (TenantStore h) st (ClientID clientReq) = Inr True)
     \<or> (\<exists>clientReq err. BodyParser L (ContentType c) (Body c) = Inr clientReq
           \<and> DeriveSharedSecret L ekp
                \<lparr>PeerKey = ClientPubKey clientReq, PeerType = PeerTypeClient\<rparr> = Inl err)"
  shows "store (handleBootstrapAuth L h ekp st c) = st"
proof (rule ccontr)
  assume changed: "store (handleBootstrapAuth L h ekp st c) \<noteq> st"
  have valid: "validAssertion L h st c"
    and c1: "store (clientRequest L h ekp st c) \<noteq> st"
    using store_handleBootstrapAuth_cases [OF changed] by simp_all
  obtain req where req: "BodyParser L (ContentType c) (Body c) = Inr req"
    and absent: "TenantExists (TenantStore h) st (ClientID req) = Inr False"
    and c2: "store (keyExchange L h ekp st req) \<noteq> st"
    using store_clientRequest_cases [OF c1] by auto
  obtain secret where secret: "DeriveSharedSecret L ekp
        \<lparr>PeerKey = ClientPubKey req, PeerType = PeerTypeClient\<rparr> = Inr secret"
    using store_createTenant_cases [OF c2] by auto
  from valid obtain k payload token
    where nonblank: "TrimSpace (Authorization c) \<noteq> []"
      and key: "PrivateKey (Certificate h) = Ed25519PrivateKey k"
      and verified: "Verify L (TrimSpace (TrimPrefix (TrimSpace (Authorization c)) ''Bearer''))
                (Public L k) = Inr payload"
      and parsed: "ParseJSON L payload = Inr token"
      and known: "TokenExists (TokenStore h) st (HexID L token) = Inr True"
    by (auto simp: validAssertion_def split: PrivateKey.splits sum.splits)
  from assms show False
  proof (elim disjE exE conjE)
    assume "TrimSpace (Authorization c) = []"
    with nonblank show False by simp
  next
    fix k' err
    assume "PrivateKey (Certificate h) = Ed25519PrivateKey k'"
      and "Verify L (TrimSpace (TrimPrefix (TrimSpace (Authorization c)) ''Bearer''))
             (Public L k') = Inl err"
    with key verified show False by simp
  next
    fix k' payload' token'
    assume "PrivateKey (Certificate h) = Ed25519PrivateKey k'"
      and "Verify L (TrimSpace (TrimPrefix (TrimSpace (Authorization c)) ''Bearer''))
             (Public L k') = Inr payload'"
      and "ParseJSON L payload' = Inr token'"
      and "TokenExists (TokenStore h) st (HexID L token') = Inr False"
    with key verified parsed known show False by simp
  next
    fix err
    assume "BodyParser L (ContentType c) (Body c) = Inl err"
    with req show False by simp
  next
    fix clientReq
    assume "BodyParser L (ContentType c) (Body c) = Inr clientReq"
      and "TenantExists (TenantStore h) st (ClientID clientReq) = Inr True"
    with req absent show False by simp
  next
    fix clientReq err
    assume "BodyParser L (ContentType c) (Body c) = Inr clientReq"
      and "DeriveSharedSecret L ekp
             \<lparr>PeerKey = ClientPubKey clientReq, PeerType = PeerTypeClient\<rparr> = Inl err"
    with req secret show False by simp
  qed
qed

theorem Auth_failure_leaves_store_witness:
  "store (handleBootstrapAuth demoLibs demoConfig demoKeyPair demoStore
            (demoRequest [] ''agent-1:client-pub'')) = demoStore
   \<and> store (handleBootstrapAuth demoLibs demoConfig demoKeyPair demoStore
            (demoRequest ''Bearer forged'' ''agent-1:client-pub'')) = demoStore
   \<and> store (handleBootstrapAuth demoLibs demoConfig demoKeyPair demoStore
            (demoRequest ''Bearer jws-2'' ''agent-1:client-pub'')) = demoStore
   \<and> store (handleBootstrapAuth demoLibs demoConfig demoKeyPair demoStore
            (demoRequest ''Bearer jws-1'' [])) = demoStore
   \<and> store (handleBootstrapAuth demoLibs demoConfig demoKeyPair demoTenantStore
            (demoRequest ''Bearer jws-1'' ''agent-1:client-pub'')) = demoTenantStore
   \<and> store (handleBootstrapAuth demoLibs demoConfig demoKeyPair demoStore
            (demoRequest ''Bearer jws-1'' ''agent-1:''))
        = demoStore"
proof -
  have a: "TrimSpace (Authorization (demoRequest [] ''agent-1:client-pub'')) = []"
    by (simp add: demoRequest_def)
  have b: "PrivateKey (Certificate demoConfig) = Ed25519PrivateKey ''gateway-key''
      \<and> Verify demoLibs
          (TrimSpace (TrimPrefix (TrimSpace
             (Authorization (demoRequest ''Bearer forged'' ''agent-1:client-pub''))) ''Bearer''))
          (Public demoLibs ''gateway-key'') = Inl ''failed to verify message''"
    by (simp add: demo_defs)
  have c: "PrivateKey (Certificate demoConfig) = Ed25519PrivateKey ''gateway-key''
      \<and> Verify demoLibs
          (TrimSpace (TrimPrefix (TrimSpace
             (Authorization (demoRequest ''Bearer jws-2'' ''agent-1:client-pub''))) ''Bearer''))
          (Public demoLibs ''gateway-key'') = Inr ''cd34:tok-456''
      \<and> ParseJSON demoLibs ''cd34:tok-456'' = Inr \<lparr>TokenID = ''cd34'', TokenSecret = ''tok-456''\<rparr>
      \<and> TokenExists (TokenStore demoConfig) demoStore
           (HexID demoLibs \<lparr>TokenID = ''cd34'', TokenSecret = ''tok-456''\<rparr>) = Inr False"
    by (simp add: demo_defs)
  have d: "BodyParser demoLibs (ContentType (demoRequest ''Bearer jws-1'' []))
      (Body (demoRequest ''Bearer jws-1'' [])) = Inl ''unexpected end of JSON input''"
    by (simp add: demo_defs)
  have e: "BodyParser demoLibs (ContentType (demoRequest ''Bearer jws-1'' ''agent-1:client-pub''))
        (Body (demoRequest ''Bearer jws-1'' ''agent-1:client-pub''))
        = Inr \<lparr>ClientID = ''agent-1'', ClientPubKey = ''client-pub''\<rparr>
      \<and> TenantExists (TenantStore demoConfig) demoTenantStore
          (ClientID \<lparr>ClientID = ''agent-1'', ClientPubKey = ''client-pub''\<rparr>) = Inr True"
    by (simp add: demo_defs)
  have f: "BodyParser demoLibs
        (ContentType (demoRequest ''Bearer jws-1'' ''agent-1:''))
        (Body (demoRequest ''Bearer jws-1'' ''agent-1:''))
        = Inr \<lparr>ClientID = ''agent-1'', ClientPubKey = []\<rparr>
      \<and> DeriveSharedSecret demoLibs demoKeyPair
          \<lparr>PeerKey = ClientPubKey \<lparr>ClientID = ''agent-1'', ClientPubKey = []\<rparr>,
           PeerType = PeerTypeClient\<rparr> = Inl ''invalid public key''"
    by (simp add: demo_defs)
  have r1: "store (handleBootstrapAuth demoLibs demoConfig demoKeyPair demoStore
            (demoRequest [] ''agent-1:client-pub'')) = demoStore"
    by (rule Auth_failure_leaves_store, rule disjI1, rule a)
  have r2: "store (handleBootstrapAuth demoLibs demoConfig demoKeyPair demoStore
            (demoRequest ''Bearer forged'' ''agent-1:client-pub'')) = demoStore"
    by (rule Auth_failure_leaves_store, rule disjI2, rule disjI1, intro exI, rule b)
  have r3: "store (handleBootstrapAuth demoLibs demoConfig demoKeyPair demoStore
            (demoRequest ''Bearer jws-2'' ''agent-1:client-pub'')) = demoStore"
    by (rule Auth_failure_leaves_store, rule disjI2, rule disjI2, rule disjI1, intro exI, rule c)
  have r4: "store (handleBootstrapAuth demoLibs demoConfig demoKeyPair demoStore
            (demoRequest ''Bearer jws-1'' [])) = demoStore"
    by (rule Auth_failure_leaves_store, rule disjI2, rule disjI2, rule disjI2, rule disjI1,
        intro exI, rule d)
  have r5: "store (handleBootstrapAuth demoLibs demoConfig demoKeyPair demoTenantStore
            (demoRequest ''Bearer jws-1'' ''agent-1:client-pub'')) = demoTenantStore"
    by (rule Auth_failure_leaves_store, rule disjI2, rule disjI2, rule disjI2, rule disjI2,
        rule disjI1, intro exI, rule e)
  have r6: "store (handleBootstrapAuth demoLibs demoConfig demoKeyPair demoStore
            (demoRequest ''Bearer jws-1'' ''agent-1:''))
        = demoStore"
    by (rule Auth_failure_leaves_store, rule disjI2, rule disjI2, rule disjI2, rule disjI2,
        rule disjI2, intro exI, rule f)
  from r1 r2 r3 r4 r5 r6 show ?thesis by simp
qed

lemma signTokens_Inr:
  assumes "\<forall>t\<in>set ts. \<exists>sig. SignDetached L t key = Inr sig"
  shows "\<exists>sigs. signTokens L key ts acc = Inr sigs
    \<and> fst ` set sigs = fst ` set acc \<union> HexID L ` set ts
    \<and> (distinct (map fst acc) \<longrightarrow> distinct (map fst sigs))
    \<and> (\<forall>k. k \<notin> HexID L ` set ts \<longrightarrow> map_of sigs k = map_of acc k)
    \<and> (distinct (map (HexID L) ts) \<longrightarrow>
         (\<forall>t\<in>set ts. \<exists>sig. SignDetached L t key = Inr sig
            \<and> map_of sigs (HexID L t) = Some sig))"
  using assms
proof (induction ts arbitrary: acc)
  case Nil
  then show ?case by simp
next
  case (Cons t ts)
  from Cons.prems obtain sig where sig: "SignDetached L t key = Inr sig"
    by auto
  let ?acc = "AList.update (HexID L t) sig acc"
  from Cons.prems have "\<forall>t\<in>set ts. \<exists>sig. SignDetached L t key = Inr sig"
    by simp
  from Cons.IH [OF this, of ?acc] obtain sigs
    where run: "signTokens L key ts ?acc = Inr sigs"
      and keys: "fst ` set sigs = fst ` set ?acc \<union> HexID L ` set ts"
      and dist: "distinct (map fst ?acc) \<longrightarrow> distinct (map fst sigs)"
      and frame: "\<forall>k. k \<notin> HexID L ` set ts \<longrightarrow> map_of sigs k = map_of ?acc k"
      and each: "distinct (map (HexID L) ts) \<longrightarrow>
         (\<forall>t\<in>set ts. \<exists>sig. SignDetached L t key = Inr sig
            \<and> map_of sigs (HexID L t) = Some sig)"
    by blast
  have 1: "signTokens L key (t # ts) acc = Inr sigs"
    using sig run by simp
  have 2: "fst ` set sigs = fst ` set acc \<union> HexID L ` set (t # ts)"
    using keys by (auto simp: dom_update)
  have 3: "distinct (map fst acc) \<longrightarrow> distinct (map fst sigs)"
    using dist by (simp add: distinct_update)
  have 4: "\<forall>k. k \<notin> HexID L ` set (t # ts) \<longrightarrow> map_of sigs k = map_of acc k"
    using frame by (simp add: update_conv')
  have 5: "distinct (map (HexID L) (t # ts)) \<longrightarrow>
         (\<forall>t'\<in>set (t # ts). \<exists>sig. SignDetached L t' key = Inr sig
            \<and> map_of sigs (HexID L t') = Some sig)"
  proof
    assume d: "distinct (map (HexID L) (t # ts))"
    then have "HexID L t \<notin> HexID L ` set ts" by simp
    with frame have "map_of sigs (HexID L t) = map_of ?acc (HexID L t)" by blast
    then have "map_of sigs (HexID L t) = Some sig" by (simp add: update_conv')
    with sig each d show "\<forall>t'\<in>set (t # ts). \<exists>sig. SignDetached L t' key = Inr sig
            \<and> map_of sigs (HexID L t') = Some sig"
      by simp
  qed
  from 1 2 3 4 5 show ?case by blast
qed

text \<open>
  C4, as the claim states it, fails at the empty token set, where Join answers 405 and
  no success; and where the signing fails, here because the certificate's key is a
  value that cannot sign, Join answers 500.
\<close>

theorem Join_signatures_counterexample:
  "ListTokens (TokenStore demoConfig) (demoStore\<lparr>tokens := []\<rparr>) = Inr []
   \<and> handleBootstrapJoin demoLibs demoConfig (demoStore\<lparr>tokens := []\<rparr>)
        (demoRequest [] ''agent-1:client-pub'')
       = Respond \<lparr>StatusCode = StatusMethodNotAllowed,
                  ResponseBody = SendString ''Method Not Allowed''\<rparr>
   \<and> handleBootstrapJoin demoLibs
        (demoConfig\<lparr>Certificate := \<lparr>PrivateKey = NotAPrivateKey\<rparr>\<rparr>) demoStore
        (demoRequest [] ''agent-1:client-pub'')
       = Respond \<lparr>StatusCode = StatusInternalServerError,
                  ResponseBody = SendString ''Internal Server Error''\<rparr>"
proof -
  have a: "ListTokens (TokenStore demoConfig) (demoStore\<lparr>tokens := []\<rparr>) = Inr []"
    by (simp add: demo_defs)
  have b: "handleBootstrapJoin demoLibs demoConfig (demoStore\<lparr>tokens := []\<rparr>)
        (demoRequest [] ''agent-1:client-pub'')
       = Respond \<lparr>StatusCode = StatusMethodNotAllowed,
                  ResponseBody = SendString ''Method Not Allowed''\<rparr>"
    by code_simp
  have c: "handleBootstrapJoin demoLibs
        (demoConfig\<lparr>Certificate := \<lparr>PrivateKey = NotAPrivateKey\<rparr>\<rparr>) demoStore
        (demoRequest [] ''agent-1:client-pub'')
       = Respond \<lparr>StatusCode = StatusInternalServerError,
                  ResponseBody = SendString ''Internal Server Error''\<rparr>"
    by code_simp
  from a b c show ?thesis by simp
qed

text \<open>
  C4, amended. For every non-empty list T of active tokens with distinct hex
  identifiers, each of which is signed without error, Join with no credential answers
  200 with a Signatures map of exactly one entry per member of T: its keys are the hex
  identifiers of T, and the value at a token's hex identifier is the detached signature
  computed over that token's secret with the gateway's private key. Whatever
  verification accepts all that this key signs accepts every entry over its token's
  secret.
\<close>

theorem Join_signs_every_token:
  assumes "TrimSpace (Authorization c) = []"
    and "ListTokens (TokenStore h) st = Inr T"
    and "T \<noteq> []"
    and "distinct (map (HexID L) T)"
    and "\<forall>t\<in>set T. \<exists>sig. Sign L (PrivateKey (Certificate h)) (TokenSecret t) = Inr sig"
  shows "\<exists>sigs. handleBootstrapJoin L h st c =
            Respond \<lparr>StatusCode = StatusOK, ResponseBody = JoinJSON \<lparr>Signatures = sigs\<rparr>\<rparr>
    \<and> length sigs = length T
    \<and> distinct (map fst sigs)
    \<and> fst ` set sigs = HexID L ` set T
    \<and> (\<forall>t\<in>set T. \<exists>sig. Sign L (PrivateKey (Certificate h)) (TokenSecret t) = Inr sig
          \<and> map_of sigs (HexID L t) = Some sig)
    \<and> ((\<forall>msg sig. Sign L (PrivateKey (Certificate h)) msg = Inr sig \<longrightarrow> verifies sig msg)
        \<longrightarrow> (\<forall>t\<in>set T. \<exists>sig. map_of sigs (HexID L t) = Some sig
               \<and> verifies sig (TokenSecret t)))"
proof -
  from assms(5)
  have signed: "\<forall>t\<in>set T. \<exists>sig. SignDetached L t (PrivateKey (Certificate h)) = Inr sig"
    by (simp add: SignDetached_def)
  from signTokens_Inr [OF signed, of "[]"] assms(4) obtain sigs
    where run: "signTokens L (PrivateKey (Certificate h)) T [] = Inr sigs"
      and keys: "fst ` set sigs = HexID L ` set T"
      and dist: "distinct (map fst sigs)"
      and each: "\<forall>t\<in>set T. \<exists>sig. Sign L (PrivateKey (Certificate h)) (TokenSecret t) = Inr sig
          \<and> map_of sigs (HexID L t) = Some sig"
    by (auto simp: SignDetached_def)
  have "length sigs = card (fst ` set sigs)"
    using dist distinct_card [of "map fst sigs"] by simp
  also have "\<dots> = card (set (map (HexID L) T))"
    using keys by simp
  also have "\<dots> = length T"
    using assms(4) distinct_card [of "map (HexID L) T"] by simp
  finally have len: "length sigs = length T" .
  with assms(3) have "length sigs \<noteq> 0" by simp
  then have resp: "handleBootstrapJoin L h st c =
      Respond \<lparr>StatusCode = StatusOK, ResponseBody = JoinJSON \<lparr>Signatures = sigs\<rparr>\<rparr>"
    using assms(1,2) run by (simp add: handleBootstrapJoin_def bootstrapJoinResponse_def)
  have ver: "(\<forall>msg sig. Sign L (PrivateKey (Certificate h)) msg = Inr sig \<longrightarrow> verifies sig msg)
        \<longrightarrow> (\<forall>t\<in>set T. \<exists>sig. map_of sigs (HexID L t) = Some sig
               \<and> verifies sig (TokenSecret t))"
  proof (intro impI ballI)
    fix t assume sound: "\<forall>msg sig. Sign L (PrivateKey (Certificate h)) msg = Inr sig
        \<longrightarrow> verifies sig msg" and "t \<in> set T"
    with each obtain sig where "Sign L (PrivateKey (Certificate h)) (TokenSecret t) = Inr sig"
      and "map_of sigs (HexID L t) = Some sig"
      by auto
    with sound show "\<exists>sig. map_of sigs (HexID L t) = Some sig \<and> verifies sig (TokenSecret t)"
      by auto
  qed
  from resp len dist keys each ver show ?thesis
    by (intro exI [of _ sigs] conjI)
qed

theorem Join_signs_every_token_witness:
  "handleBootstrapJoin demoLibs demoConfig
      (demoStore\<lparr>tokens := [\<lparr>TokenID = ''ab12'', TokenSecret = ''tok-123''\<rparr>,
                            \<lparr>TokenID = ''cd34'', TokenSecret = ''tok-456''\<rparr>]\<rparr>)
      (demoRequest [] [])
     = Respond \<lparr>StatusCode = StatusOK, ResponseBody = JoinJSON
         \<lparr>Signatures = [(''ab12'', ''gateway-keytok-123''), (''cd34'', ''gateway-keytok-456'')]\<rparr>\<rparr>
   \<and> (\<exists>sigs. handleBootstrapJoin demoLibs demoConfig
      (demoStore\<lparr>tokens := [\<lparr>TokenID = ''ab12'', TokenSecret = ''tok-123''\<rparr>,
                            \<lparr>TokenID = ''cd34'', TokenSecret = ''tok-456''\<rparr>]\<rparr>)
      (demoRequest [] [])
     = Respond \<lparr>StatusCode = StatusOK, ResponseBody = JoinJSON \<lparr>Signatures = sigs\<rparr>\<rparr>
     \<and> length sigs = 2
     \<and> map_of sigs ''ab12'' = Some ''gateway-keytok-123''
     \<and> map_of sigs ''cd34'' = Some ''gateway-keytok-456'')"
proof -
  let ?T = "[\<lparr>TokenID = ''ab12'', TokenSecret = ''tok-123''\<rparr>,
             \<lparr>TokenID = ''cd34'', TokenSecret = ''tok-456''\<rparr>]"
  let ?st = "demoStore\<lparr>tokens := ?T\<rparr>"
  let ?key = "PrivateKey (Certificate demoConfig)"
  have h1: "TrimSpace (Authorization (demoRequest [] [])) = []"
    by (simp add: demoRequest_def)
  have h2: "ListTokens (TokenStore demoConfig) ?st = Inr ?T"
    by (simp add: demo_defs)
  have h3: "?T \<noteq> []" by simp
  have h4: "distinct (map (HexID demoLibs) ?T)"
    by (simp add: demoLibs_def)
  have h5: "\<forall>t\<in>set ?T. \<exists>sig. Sign demoLibs ?key (TokenSecret t) = Inr sig"
    by (simp add: demoLibs_def demoConfig_def)
  have h6: "\<forall>msg sig. Sign demoLibs ?key msg = Inr sig \<longrightarrow> sig = ''gateway-key'' @ msg"
    by (auto simp: demoLibs_def demoConfig_def)
  have run: "handleBootstrapJoin demoLibs demoConfig ?st (demoRequest [] [])
     = Respond \<lparr>StatusCode = StatusOK, ResponseBody = JoinJSON
         \<lparr>Signatures = [(''ab12'', ''gateway-keytok-123''), (''cd34'', ''gateway-keytok-456'')]\<rparr>\<rparr>"
    by code_simp
  from Join_signs_every_token [OF h1 h2 h3 h4 h5, of "\<lambda>sig msg. sig = ''gateway-key'' @ msg"] h6
  obtain sigs
    where r: "handleBootstrapJoin demoLibs demoConfig ?st (demoRequest [] []) =
            Respond \<lparr>StatusCode = StatusOK, ResponseBody = JoinJSON \<lparr>Signatures = sigs\<rparr>\<rparr>"
      and len: "length sigs = length ?T"
      and ver: "\<forall>t\<in>set ?T. \<exists>sig. map_of sigs (HexID demoLibs t) = Some sig
               \<and> sig = ''gateway-key'' @ TokenSecret t"
    by auto
  from ver have vals: "map_of sigs ''ab12'' = Some ''gateway-keytok-123''
      \<and> map_of sigs ''cd34'' = Some ''gateway-keytok-456''"
    by (simp add: demoLibs_def)
  with r len run show ?thesis by auto
qed

lemma spacePrefix_B: "spacePrefix (CHR ''B'' # s) = None"
  by (simp add: spacePrefix_def spaceEncodings_def asciiSpace_def unicodeSpace_def)

lemma spacePrefix_blank: "spacePrefix (CHR '' '' # s) = Some '' ''"
  by (simp add: spacePrefix_def spaceEncodings_def asciiSpace_def unicodeSpace_def)

lemma TrimLeftSpace_blank: "TrimLeftSpace (CHR '' '' # s) = TrimLeftSpace s"
  by (subst TrimLeftSpace.simps) (simp add: spacePrefix_blank)

lemma blank_inside_no_encoding:
  "e \<in> set spaceEncodings \<Longrightarrow> CHR '' '' \<notin> set (butlast e)"
  by (auto simp: spaceEncodings_def asciiSpace_def unicodeSpace_def)

lemma spaceSuffix_after_blank:
  assumes "spaceSuffix t = None" and "t \<noteq> []"
  shows "spaceSuffix (p @ CHR '' '' # t) = None"
proof -
  have "\<not> suffix e (p @ CHR '' '' # t)" if e: "e \<in> set spaceEncodings" for e
  proof
    assume "suffix e (p @ CHR '' '' # t)"
    then have "suffix e ((p @ '' '') @ t)" by simp
    then have "suffix e t \<or> (\<exists>e'. e = e' @ t \<and> suffix e' (p @ '' ''))"
      unfolding suffix_append .
    moreover have "\<not> suffix e t"
      using assms(1) e by (simp add: spaceSuffix_None_iff)
    ultimately obtain e' where e': "e = e' @ t" and s: "suffix e' (p @ '' '')"
      by blast
    from e' \<open>\<not> suffix e t\<close> have "e' \<noteq> []" by auto
    with s have "last e' = CHR '' ''"
      by (metis last_appendR last_snoc suffix_def)
    with \<open>e' \<noteq> []\<close> have "CHR '' '' \<in> set e'"
      using last_in_set by metis
    with e' assms(2) have "CHR '' '' \<in> set (butlast e)"
      by (simp add: butlast_append)
    with e show False using blank_inside_no_encoding by blast
  qed
  then show ?thesis by (simp add: spaceSuffix_None_iff)
qed


lemma enc_shape:
  assumes "e \<in> set spaceEncodings"
  shows "e \<noteq> []"
    and "\<not> (128 \<le> (of_char (hd e) :: nat) \<and> (of_char (hd e) :: nat) < 192)"
    and "\<forall>c\<in>set (tl e). 128 \<le> (of_char c :: nat) \<and> (of_char c :: nat) < 192"
  using assms by (auto simp: spaceEncodings_def asciiSpace_def unicodeSpace_def)

lemma enc_prefix_free:
  assumes "e \<in> set spaceEncodings" and "f \<in> set spaceEncodings" and "prefix e f"
  shows "e = f"
proof -
  have "\<forall>e\<in>set spaceEncodings. \<forall>f\<in>set spaceEncodings. prefix e f \<longrightarrow> e = f"
    by code_simp
  with assms show ?thesis by blast
qed

lemma enc_suffix_free:
  assumes "e \<in> set spaceEncodings" and "f \<in> set spaceEncodings" and "suffix e f"
  shows "e = f"
proof -
  have "\<forall>e\<in>set spaceEncodings. \<forall>f\<in>set spaceEncodings. suffix e f \<longrightarrow> e = f"
    by code_simp
  with assms show ?thesis by blast
qed


lemma spacePrefix_unique:
  assumes "f \<in> set spaceEncodings" and "prefix f s"
  shows "spacePrefix s = Some f"
proof (cases "spacePrefix s")
  case None
  with assms show ?thesis by (simp add: spacePrefix_None_iff)
next
  case (Some g)
  then have g: "g \<in> set spaceEncodings" "prefix g s" using spacePrefix_Some by blast+
  from g(2) assms(2) have "prefix g f \<or> prefix f g" by (rule prefix_same_cases)
  with g(1) assms(1) have "g = f" using enc_prefix_free by metis
  with Some show ?thesis by simp
qed

lemma spaceSuffix_unique:
  assumes "f \<in> set spaceEncodings" and "suffix f s"
  shows "spaceSuffix s = Some f"
proof (cases "spaceSuffix s")
  case None
  with assms show ?thesis by (simp add: spaceSuffix_None_iff)
next
  case (Some g)
  then have g: "g \<in> set spaceEncodings" "suffix g s" using spaceSuffix_Some by blast+
  from g(2) assms(2) have "suffix g f \<or> suffix f g" by (rule suffix_same_cases)
  with g(1) assms(1) have "g = f" using enc_suffix_free by metis
  with Some show ?thesis by simp
qed

lemma TrimLeftSpace_encoding:
  assumes "e \<in> set spaceEncodings"
  shows "TrimLeftSpace (e @ s) = TrimLeftSpace s"
proof -
  have "spacePrefix (e @ s) = Some e"
    using assms by (intro spacePrefix_unique) simp_all
  then show ?thesis by (subst TrimLeftSpace.simps) simp
qed

lemma TrimRightSpace_encoding:
  assumes "e \<in> set spaceEncodings"
  shows "TrimRightSpace (s @ e) = TrimRightSpace s"
proof -
  have "spaceSuffix (s @ e) = Some e"
    using assms by (intro spaceSuffix_unique) (simp_all add: suffix_def)
  then show ?thesis by (subst TrimRightSpace.simps) simp
qed

lemma spaceSuffix_after_encoding:
  assumes e: "e \<in> set spaceEncodings" and none: "spaceSuffix s = None" and ne: "s \<noteq> []"
  shows "spaceSuffix (e @ s) = None"
proof -
  have "\<not> suffix g (e @ s)" if g: "g \<in> set spaceEncodings" for g
  proof
    assume "suffix g (e @ s)"
    then have "suffix g s \<or> (\<exists>g'. g = g' @ s \<and> suffix g' e)"
      unfolding suffix_append .
    moreover have ns: "\<not> suffix g s"
      using none g by (simp add: spaceSuffix_None_iff)
    ultimately obtain g' where g': "g = g' @ s" and s: "suffix g' e"
      by blast
    from g' ns have g'ne: "g' \<noteq> []" by auto
    from s obtain x where x: "e = x @ g'" by (auto simp: suffix_def)
    show False
    proof (cases "x = []")
      case True
      with x g' have "prefix e g" by simp
      with e g have "e = g" by (rule enc_prefix_free)
      with x g' True ne show False by simp
    next
      case False
      with x g'ne have "hd g' \<in> set (tl e)" by (cases x) auto
      then have "128 \<le> (of_char (hd g') :: nat) \<and> (of_char (hd g') :: nat) < 192"
        using enc_shape(3) [OF e] by blast
      moreover from g' g'ne have "hd g = hd g'" by simp
      ultimately show False using enc_shape(2) [OF g] by simp
    qed
  qed
  then show ?thesis by (simp add: spaceSuffix_None_iff)
qed

lemma spaceSuffix_split:
  assumes "spaceSuffix s = Some f"
  shows "s = take (length s - length f) s @ f"
proof -
  from assms have "suffix f s" using spaceSuffix_Some by blast
  then obtain x where "s = x @ f" by (auto simp: suffix_def)
  then show ?thesis by simp
qed

lemma spacePrefix_split:
  assumes "spacePrefix s = Some e"
  shows "s = e @ drop (length e) s"
proof -
  from assms have "prefix e s" using spacePrefix_Some by blast
  then obtain x where "s = e @ x" by (auto simp: prefix_def)
  then show ?thesis by simp
qed

lemma TrimRightSpace_after_encoding:
  assumes e: "e \<in> set spaceEncodings"
  shows "TrimRightSpace (e @ s) = (if TrimRightSpace s = [] then [] else e @ TrimRightSpace s)"
proof (induction s rule: TrimRightSpace.induct)
  case (1 s)
  show ?case
  proof (cases "spaceSuffix s")
    case None
    then have id: "TrimRightSpace s = s" by (rule TrimRightSpace_id)
    show ?thesis
    proof (cases "s = []")
      case True
      have "TrimRightSpace ([] @ e) = TrimRightSpace []" using e by (rule TrimRightSpace_encoding)
      moreover have "TrimRightSpace [] = []" using id True by simp
      ultimately show ?thesis using True by simp
    next
      case False
      have "spaceSuffix (e @ s) = None" using e None False by (rule spaceSuffix_after_encoding)
      then have "TrimRightSpace (e @ s) = e @ s" by (rule TrimRightSpace_id)
      with id False show ?thesis by simp
    qed
  next
    case (Some f)
    let ?s' = "take (length s - length f) s"
    have f: "f \<in> set spaceEncodings" using Some spaceSuffix_Some by blast
    have split: "s = ?s' @ f" using Some by (rule spaceSuffix_split)
    have r: "TrimRightSpace s = TrimRightSpace ?s'"
      using Some by (subst TrimRightSpace.simps) simp
    have "TrimRightSpace (e @ s) = TrimRightSpace ((e @ ?s') @ f)"
      using split by simp
    also have "\<dots> = TrimRightSpace (e @ ?s')" using f by (rule TrimRightSpace_encoding)
    also have "\<dots> = (if TrimRightSpace ?s' = [] then [] else e @ TrimRightSpace ?s')"
      using Some by (rule 1)
    finally show ?thesis using r by simp
  qed
qed

lemma TrimRightSpace_Nil: "TrimRightSpace [] = []"
  using TrimRightSpace_prefix [of "[]"] by simp

lemma TrimLeftSpace_Nil: "TrimLeftSpace [] = []"
  by (rule TrimLeftSpace_id) (simp add: spacePrefix_None_iff spaceEncodings_nonempty)

lemma TrimLeft_TrimRight_commute:
  "TrimLeftSpace (TrimRightSpace s) = TrimRightSpace (TrimLeftSpace s)"
proof (induction s rule: TrimLeftSpace.induct)
  case (1 s)
  show ?case
  proof (cases "spacePrefix s")
    case None
    then have id: "TrimLeftSpace s = s" by (rule TrimLeftSpace_id)
    have "\<forall>e\<in>set spaceEncodings. \<not> prefix e s"
      using None by (simp add: spacePrefix_None_iff)
    moreover have "prefix (TrimRightSpace s) s" by (rule TrimRightSpace_prefix)
    ultimately have "\<forall>e\<in>set spaceEncodings. \<not> prefix e (TrimRightSpace s)"
      using prefix_order.trans by blast
    then have "spacePrefix (TrimRightSpace s) = None" by (simp add: spacePrefix_None_iff)
    then have "TrimLeftSpace (TrimRightSpace s) = TrimRightSpace s" by (rule TrimLeftSpace_id)
    with id show ?thesis by simp
  next
    case (Some e)
    let ?s' = "drop (length e) s"
    have e: "e \<in> set spaceEncodings" using Some spacePrefix_Some by blast
    have split: "s = e @ ?s'" using Some by (rule spacePrefix_split)
    have l: "TrimLeftSpace s = TrimLeftSpace ?s'"
      using Some by (subst TrimLeftSpace.simps) simp
    have "TrimRightSpace s = TrimRightSpace (e @ ?s')" using split by simp
    also have "\<dots> = (if TrimRightSpace ?s' = [] then [] else e @ TrimRightSpace ?s')"
      using e by (rule TrimRightSpace_after_encoding)
    finally have "TrimLeftSpace (TrimRightSpace s) = TrimLeftSpace (TrimRightSpace ?s')"
      using TrimLeftSpace_encoding [OF e]
      by (simp add: TrimLeftSpace_Nil del: TrimLeftSpace.simps TrimRightSpace.simps)
    also have "\<dots> = TrimRightSpace (TrimLeftSpace ?s')" using Some by (rule 1)
    finally show ?thesis using l by simp
  qed
qed

lemma TrimRightSpace_idem: "TrimRightSpace (TrimRightSpace s) = TrimRightSpace s"
  by (rule TrimRightSpace_id) (rule TrimRightSpace_no_suffix)

lemma TrimRightSpace_after_blank:
  "TrimRightSpace a \<noteq> [] \<Longrightarrow> TrimRightSpace (p @ CHR '' '' # a) = p @ CHR '' '' # TrimRightSpace a"
proof (induction a rule: TrimRightSpace.induct)
  case (1 a)
  show ?case
  proof (cases "spaceSuffix a")
    case None
    then have id: "TrimRightSpace a = a" by (rule TrimRightSpace_id)
    with 1(2) have "a \<noteq> []" by simp
    with None have "spaceSuffix (p @ CHR '' '' # a) = None" by (rule spaceSuffix_after_blank)
    then have "TrimRightSpace (p @ CHR '' '' # a) = p @ CHR '' '' # a" by (rule TrimRightSpace_id)
    with id show ?thesis by simp
  next
    case (Some f)
    let ?a' = "take (length a - length f) a"
    have f: "f \<in> set spaceEncodings" using Some spaceSuffix_Some by blast
    have split: "a = ?a' @ f" using Some by (rule spaceSuffix_split)
    have r: "TrimRightSpace a = TrimRightSpace ?a'"
      using Some by (subst TrimRightSpace.simps) simp
    have "TrimRightSpace (p @ CHR '' '' # a) = TrimRightSpace ((p @ CHR '' '' # ?a') @ f)"
      using split by simp
    also have "\<dots> = TrimRightSpace (p @ CHR '' '' # ?a')" using f by (rule TrimRightSpace_encoding)
    also have "\<dots> = p @ CHR '' '' # TrimRightSpace ?a'"
      using Some 1(2) r by (intro 1(1)) simp_all
    finally show ?thesis using r by simp
  qed
qed

lemma TrimSpace_Bearer_any:
  assumes "TrimSpace a \<noteq> []"
  shows "TrimSpace (''Bearer '' @ a) = ''Bearer '' @ TrimRightSpace a"
    and "TrimSpace (TrimPrefix (TrimSpace (''Bearer '' @ a)) ''Bearer'') = TrimSpace a"
proof -
  have comm: "TrimSpace a = TrimLeftSpace (TrimRightSpace a)"
    unfolding TrimSpace_def by (rule TrimLeft_TrimRight_commute [symmetric])
  with assms have ne: "TrimRightSpace a \<noteq> []"
    by (auto simp: TrimLeftSpace_Nil simp del: TrimLeftSpace.simps TrimRightSpace.simps)
  have "spacePrefix (''Bearer '' @ a) = None"
    using spacePrefix_B [of "''earer '' @ a"] by simp
  then have "TrimLeftSpace (''Bearer '' @ a) = ''Bearer '' @ a" by (rule TrimLeftSpace_id)
  moreover have "TrimRightSpace (''Bearer'' @ CHR '' '' # a) = ''Bearer'' @ CHR '' '' # TrimRightSpace a"
    using ne by (rule TrimRightSpace_after_blank)
  ultimately show t: "TrimSpace (''Bearer '' @ a) = ''Bearer '' @ TrimRightSpace a"
    by (simp add: TrimSpace_def)
  have "TrimPrefix (''Bearer '' @ TrimRightSpace a) ''Bearer'' = CHR '' '' # TrimRightSpace a"
    by (simp add: TrimPrefix_def)
  moreover have "TrimSpace (CHR '' '' # TrimRightSpace a) = TrimSpace (TrimRightSpace a)"
    by (simp only: TrimSpace_def TrimLeftSpace_blank)
  moreover have "TrimSpace (TrimRightSpace a) = TrimSpace a"
    unfolding TrimSpace_def
    by (simp only: TrimLeft_TrimRight_commute [symmetric] TrimRightSpace_idem)
  ultimately show "TrimSpace (TrimPrefix (TrimSpace (''Bearer '' @ a)) ''Bearer'') = TrimSpace a"
    using t by simp
qed

lemma clientRequest_Authorization:
  "clientRequest L h ekp st (c\<lparr>Authorization := a\<rparr>) = clientRequest L h ekp st c"
  by (simp add: clientRequest_def)

lemma checkToken_Authorization:
  "checkToken L h ekp st (c\<lparr>Authorization := a\<rparr>) payload = checkToken L h ekp st c payload"
  by (simp add: checkToken_def clientRequest_Authorization split: sum.splits)

lemma createTenant_Verify:
  "createTenant (L\<lparr>Verify := V\<rparr>) h ekp st req secret = createTenant L h ekp st req secret"
  by (simp add: createTenant_def)

lemma keyExchange_Verify:
  "keyExchange (L\<lparr>Verify := V\<rparr>) h ekp st req = keyExchange L h ekp st req"
  by (simp add: keyExchange_def createTenant_Verify split: sum.splits)

lemma clientRequest_Verify:
  "clientRequest (L\<lparr>Verify := V\<rparr>) h ekp st c = clientRequest L h ekp st c"
  by (simp add: clientRequest_def keyExchange_Verify split: sum.splits)

lemma checkToken_Verify:
  "checkToken (L\<lparr>Verify := V\<rparr>) h ekp st c payload = checkToken L h ekp st c payload"
  by (simp add: checkToken_def clientRequest_Verify split: sum.splits)

lemma handleBootstrapAuth_blank:
  "TrimSpace (Authorization c) = [] \<Longrightarrow>
   handleBootstrapAuth L h ekp st c =
     \<lparr>outcome = Respond (SendStatus StatusUnauthorized), store = st, logged = []\<rparr>"
  by (simp add: handleBootstrapAuth_def)

lemma handleBootstrapAuth_trimmed:
  "handleBootstrapAuth L h ekp st (c\<lparr>Authorization := TrimSpace (Authorization c)\<rparr>)
     = handleBootstrapAuth L h ekp st c"
  by (simp add: handleBootstrapAuth_def checkToken_Authorization Let_def
           split: PrivateKey.splits sum.splits)

lemma handleBootstrapAuth_Verify:
  assumes "\<forall>key. V (TrimSpace (TrimPrefix (TrimSpace (Authorization c)) ''Bearer'')) key
             = Verify L (TrimSpace (TrimPrefix (TrimSpace (Authorization c)) ''Bearer'')) key"
  shows "handleBootstrapAuth (L\<lparr>Verify := V\<rparr>) h ekp st c = handleBootstrapAuth L h ekp st c"
  using assms
  by (simp add: handleBootstrapAuth_def checkToken_Verify Let_def
           split: PrivateKey.splits sum.splits)

lemma handleBootstrapAuth_Verify_eq:
  assumes "TrimSpace (Authorization c) \<noteq> []"
    and "PrivateKey (Certificate h) = Ed25519PrivateKey k"
  shows "handleBootstrapAuth L h ekp st c =
     (case Verify L (TrimSpace (TrimPrefix (TrimSpace (Authorization c)) ''Bearer''))
             (Public L k) of
        Inl err \<Rightarrow>
          \<lparr>outcome = Respond (SendStatus StatusUnauthorized), store = st, logged = []\<rparr>
      | Inr payload \<Rightarrow> checkToken L h ekp st c payload)"
  using assms by (simp add: handleBootstrapAuth_def Let_def)

lemma handleBootstrapAuth_Bearer:
  assumes "TrimSpace a \<noteq> []" and "\<not> prefix ''Bearer'' (TrimSpace a)"
  shows "handleBootstrapAuth L h ekp st (c\<lparr>Authorization := ''Bearer '' @ a\<rparr>)
           = handleBootstrapAuth L h ekp st (c\<lparr>Authorization := a\<rparr>)"
proof -
  have bare: "TrimPrefix (TrimSpace a) ''Bearer'' = TrimSpace a"
    using assms(2) by (simp add: TrimPrefix_def)
  have ne: "TrimSpace (''Bearer '' @ a) \<noteq> []"
    using TrimSpace_Bearer_any(1) [OF assms(1)] by simp
  show ?thesis
    unfolding handleBootstrapAuth_def Let_def
    using TrimSpace_Bearer_any(2) [OF assms(1)] ne bare assms(1)
    by (simp add: checkToken_Authorization split: PrivateKey.splits sum.splits)
qed

text \<open>
  C10, as the claim states it, fails for a header that itself begins with "Bearer":
  only one leading "Bearer" is stripped, so the header "Bearerjws-1" is verified as
  "jws-1" and accepted, while that same header behind "Bearer " is verified as
  "Bearerjws-1" and answered with 401.
\<close>

theorem Auth_bearer_in_assertion_counterexample:
  "outcome (handleBootstrapAuth demoLibs demoConfig demoKeyPair demoStore
      (demoRequest ''Bearerjws-1'' ''agent-1:client-pub''))
     = Respond \<lparr>StatusCode = StatusOK,
         ResponseBody = AuthJSON \<lparr>ServerPubKey = ''eph-pub''\<rparr>\<rparr>
   \<and> outcome (handleBootstrapAuth demoLibs demoConfig demoKeyPair demoStore
      (demoRequest (''Bearer '' @ ''Bearerjws-1'') ''agent-1:client-pub''))
     = Respond (SendStatus StatusUnauthorized)"
  by code_simp

text \<open>
  C10, amended. For every header value, the assertion that Auth verifies is the header
  with its surrounding white space and one leading "Bearer" stripped: with a header that
  is not blank and an Ed25519 certificate key, the handler's result is 401 with the
  store unchanged when \<open>jws.Verify\<close> rejects the stripped header under the certificate's
  public key, and the result of the token check on the verified payload otherwise. A
  blank header is answered like an absent one, with 401; the handler's result does not
  change when the header is replaced by its trimmed value; the result depends on the
  verification function only through its value at the stripped header; and a header
  \<open>a\<close> whose trimmed value is not blank and does not itself begin with "Bearer"
  behaves as the header "Bearer " followed by \<open>a\<close>.
\<close>

theorem Auth_bearer_prefix_optional:
  "(TrimSpace (Authorization c) = [] \<longrightarrow>
      handleBootstrapAuth L h ekp st c =
        \<lparr>outcome = Respond (SendStatus StatusUnauthorized), store = st, logged = []\<rparr>)
   \<and> (TrimSpace (Authorization c) \<noteq> [] \<and> PrivateKey (Certificate h) = Ed25519PrivateKey k \<longrightarrow>
        handleBootstrapAuth L h ekp st c =
          (case Verify L (TrimSpace (TrimPrefix (TrimSpace (Authorization c)) ''Bearer''))
                  (Public L k) of
             Inl err \<Rightarrow>
               \<lparr>outcome = Respond (SendStatus StatusUnauthorized), store = st, logged = []\<rparr>
           | Inr payload \<Rightarrow> checkToken L h ekp st c payload))
   \<and> handleBootstrapAuth L h ekp st (c\<lparr>Authorization := TrimSpace (Authorization c)\<rparr>)
       = handleBootstrapAuth L h ekp st c
   \<and> ((\<forall>key. V (TrimSpace (TrimPrefix (TrimSpace (Authorization c)) ''Bearer'')) key
              = Verify L (TrimSpace (TrimPrefix (TrimSpace (Authorization c)) ''Bearer'')) key)
        \<longrightarrow> handleBootstrapAuth (L\<lparr>Verify := V\<rparr>) h ekp st c
              = handleBootstrapAuth L h ekp st c)
   \<and> (TrimSpace a \<noteq> [] \<and> \<not> prefix ''Bearer'' (TrimSpace a) \<longrightarrow>
        handleBootstrapAuth L h ekp st (c\<lparr>Authorization := ''Bearer '' @ a\<rparr>)
          = handleBootstrapAuth L h ekp st (c\<lparr>Authorization := a\<rparr>))"
proof (intro conjI impI)
  assume "TrimSpace (Authorization c) = []"
  then show "handleBootstrapAuth L h ekp st c =
        \<lparr>outcome = Respond (SendStatus StatusUnauthorized), store = st, logged = []\<rparr>"
    by (rule handleBootstrapAuth_blank)
next
  assume "TrimSpace (Authorization c) \<noteq> [] \<and> PrivateKey (Certificate h) = Ed25519PrivateKey k"
  then show "handleBootstrapAuth L h ekp st c =
          (case Verify L (TrimSpace (TrimPrefix (TrimSpace (Authorization c)) ''Bearer''))
                  (Public L k) of
             Inl err \<Rightarrow>
               \<lparr>outcome = Respond (SendStatus StatusUnauthorized), store = st, logged = []\<rparr>
           | Inr payload \<Rightarrow> checkToken L h ekp st c payload)"
    by (intro handleBootstrapAuth_Verify_eq) simp_all
next
  show "handleBootstrapAuth L h ekp st (c\<lparr>Authorization := TrimSpace (Authorization c)\<rparr>)
       = handleBootstrapAuth L h ekp st c"
    by (rule handleBootstrapAuth_trimmed)
next
  assume "\<forall>key. V (TrimSpace (TrimPrefix (TrimSpace (Authorization c)) ''Bearer'')) key
              = Verify L (TrimSpace (TrimPrefix (TrimSpace (Authorization c)) ''Bearer'')) key"
  then show "handleBootstrapAuth (L\<lparr>Verify := V\<rparr>) h ekp st c
              = handleBootstrapAuth L h ekp st c"
    by (rule handleBootstrapAuth_Verify)
next
  assume "TrimSpace a \<noteq> [] \<and> \<not> prefix ''Bearer'' (TrimSpace a)"
  then show "handleBootstrapAuth L h ekp st (c\<lparr>Authorization := ''Bearer '' @ a\<rparr>)
          = handleBootstrapAuth L h ekp st (c\<lparr>Authorization := a\<rparr>)"
    by (intro handleBootstrapAuth_Bearer) simp_all
qed

theorem Auth_bearer_prefix_optional_witness:
  "handleBootstrapAuth demoLibs demoConfig demoKeyPair demoStore (demoRequest ''  '' ''agent-1:client-pub'')
     = \<lparr>outcome = Respond (SendStatus StatusUnauthorized), store = demoStore, logged = []\<rparr>
   \<and> handleBootstrapAuth demoLibs demoConfig demoKeyPair demoStore
        (demoRequest ''Bearer forged'' ''agent-1:client-pub'')
     = \<lparr>outcome = Respond (SendStatus StatusUnauthorized), store = demoStore, logged = []\<rparr>
   \<and> handleBootstrapAuth demoLibs demoConfig demoKeyPair demoStore
        (demoRequest ''Bearer jws-1'' ''agent-1:client-pub'')
     = checkToken demoLibs demoConfig demoKeyPair demoStore
        (demoRequest ''Bearer jws-1'' ''agent-1:client-pub'') ''ab12:tok-123''
   \<and> handleBootstrapAuth
        (demoLibs\<lparr>Verify := (\<lambda>buf key. if buf = ''jws-1'' then Inr ''ab12:tok-123''
                                         else Inr ''cd34:tok-456'')\<rparr>)
        demoConfig demoKeyPair demoStore (demoRequest ''Bearer jws-1'' ''agent-1:client-pub'')
     = handleBootstrapAuth demoLibs demoConfig demoKeyPair demoStore
        (demoRequest ''Bearer jws-1'' ''agent-1:client-pub'')
   \<and> handleBootstrapAuth demoLibs demoConfig demoKeyPair demoStore
        (demoRequest ''Bearer  jws-1 '' ''agent-1:client-pub'')
     = handleBootstrapAuth demoLibs demoConfig demoKeyPair demoStore
        (demoRequest '' jws-1 '' ''agent-1:client-pub'')
   \<and> handleBootstrapAuth demoLibs demoConfig demoKeyPair demoStore
        (demoRequest '' jws-1 '' ''agent-1:client-pub'')
     = \<lparr>outcome = Respond \<lparr>StatusCode = StatusOK,
            ResponseBody = AuthJSON \<lparr>ServerPubKey = ''eph-pub''\<rparr>\<rparr>,
        store = demoTenantStore, logged = []\<rparr>"
proof -
  let ?V = "\<lambda>buf key::bytes. if buf = ''jws-1'' then Inr ''ab12:tok-123''
                            else (Inr ''cd34:tok-456'' :: error + bytes)"
  let ?good = "demoRequest ''Bearer jws-1'' ''agent-1:client-pub''"
  let ?forged = "demoRequest ''Bearer forged'' ''agent-1:client-pub''"
  have blank: "TrimSpace (Authorization (demoRequest ''  '' ''agent-1:client-pub'')) = []"
    unfolding demoRequest_def by code_simp
  have key: "PrivateKey (Certificate demoConfig) = Ed25519PrivateKey ''gateway-key''"
    by (simp add: demoConfig_def)
  have sg: "TrimSpace (Authorization ?good) = ''Bearer jws-1''"
    "TrimSpace (TrimPrefix ''Bearer jws-1'' ''Bearer'') = ''jws-1''"
    unfolding demoRequest_def by code_simp+
  have sf: "TrimSpace (Authorization ?forged) = ''Bearer forged''"
    "TrimSpace (TrimPrefix ''Bearer forged'' ''Bearer'') = ''forged''"
    unfolding demoRequest_def by code_simp+
  have hg: "TrimSpace (Authorization ?good) \<noteq> []
      \<and> PrivateKey (Certificate demoConfig) = Ed25519PrivateKey ''gateway-key''"
    using sg(1) key by simp
  have hf: "TrimSpace (Authorization ?forged) \<noteq> []
      \<and> PrivateKey (Certificate demoConfig) = Ed25519PrivateKey ''gateway-key''"
    using sf(1) key by simp
  have agree: "\<forall>key. ?V (TrimSpace (TrimPrefix (TrimSpace (Authorization ?good)) ''Bearer'')) key
      = Verify demoLibs (TrimSpace (TrimPrefix (TrimSpace (Authorization ?good)) ''Bearer'')) key"
    by (simp only: sg) (simp add: demoLibs_def)
  have bare: "TrimSpace '' jws-1 '' \<noteq> [] \<and> \<not> prefix ''Bearer'' (TrimSpace '' jws-1 '')"
    by code_simp
  have r1: "handleBootstrapAuth demoLibs demoConfig demoKeyPair demoStore
        (demoRequest ''  '' ''agent-1:client-pub'')
     = \<lparr>outcome = Respond (SendStatus StatusUnauthorized), store = demoStore, logged = []\<rparr>"
    by (rule mp [OF Auth_bearer_prefix_optional
          [where c = "demoRequest ''  '' ''agent-1:client-pub''", THEN conjunct1] blank])
  have "handleBootstrapAuth demoLibs demoConfig demoKeyPair demoStore ?forged =
          (case Verify demoLibs (TrimSpace (TrimPrefix (TrimSpace (Authorization ?forged)) ''Bearer''))
                  (Public demoLibs ''gateway-key'') of
             Inl err \<Rightarrow>
               \<lparr>outcome = Respond (SendStatus StatusUnauthorized), store = demoStore, logged = []\<rparr>
           | Inr payload \<Rightarrow> checkToken demoLibs demoConfig demoKeyPair demoStore ?forged payload)"
    by (rule mp [OF Auth_bearer_prefix_optional
          [where c = "?forged" and L = demoLibs and h = demoConfig and k = "''gateway-key''",
           THEN conjunct2, THEN conjunct1] hf])
  then have r2: "handleBootstrapAuth demoLibs demoConfig demoKeyPair demoStore ?forged
     = \<lparr>outcome = Respond (SendStatus StatusUnauthorized), store = demoStore, logged = []\<rparr>"
    by (simp only: sf) (simp add: demoLibs_def)
  have "handleBootstrapAuth demoLibs demoConfig demoKeyPair demoStore ?good =
          (case Verify demoLibs (TrimSpace (TrimPrefix (TrimSpace (Authorization ?good)) ''Bearer''))
                  (Public demoLibs ''gateway-key'') of
             Inl err \<Rightarrow>
               \<lparr>outcome = Respond (SendStatus StatusUnauthorized), store = demoStore, logged = []\<rparr>
           | Inr payload \<Rightarrow> checkToken demoLibs demoConfig demoKeyPair demoStore ?good payload)"
    by (rule mp [OF Auth_bearer_prefix_optional
          [where c = "?good" and L = demoLibs and h = demoConfig and k = "''gateway-key''",
           THEN conjunct2, THEN conjunct1] hg])
  then have r3: "handleBootstrapAuth demoLibs demoConfig demoKeyPair demoStore ?good
     = checkToken demoLibs demoConfig demoKeyPair demoStore ?good ''ab12:tok-123''"
    by (simp only: sg) (simp add: demoLibs_def)
  have r4: "handleBootstrapAuth (demoLibs\<lparr>Verify := ?V\<rparr>)
        demoConfig demoKeyPair demoStore ?good
     = handleBootstrapAuth demoLibs demoConfig demoKeyPair demoStore ?good"
    by (rule mp [OF Auth_bearer_prefix_optional
          [where V = "\<lambda>buf key. if buf = ''jws-1'' then Inr ''ab12:tok-123''
                                   else Inr ''cd34:tok-456''"
             and c = "?good" and L = demoLibs,
           THEN conjunct2, THEN conjunct2, THEN conjunct2, THEN conjunct1] agree])
  have "handleBootstrapAuth demoLibs demoConfig demoKeyPair demoStore
        ((demoRequest [] ''agent-1:client-pub'')\<lparr>Authorization := ''Bearer '' @ '' jws-1 ''\<rparr>)
     = handleBootstrapAuth demoLibs demoConfig demoKeyPair demoStore
        ((demoRequest [] ''agent-1:client-pub'')\<lparr>Authorization := '' jws-1 ''\<rparr>)"
    by (rule mp [OF Auth_bearer_prefix_optional
          [where a = "'' jws-1 ''",
           THEN conjunct2, THEN conjunct2, THEN conjunct2, THEN conjunct2] bare])
  then have r5: "handleBootstrapAuth demoLibs demoConfig demoKeyPair demoStore
        (demoRequest ''Bearer  jws-1 '' ''agent-1:client-pub'')
     = handleBootstrapAuth demoLibs demoConfig demoKeyPair demoStore
        (demoRequest '' jws-1 '' ''agent-1:client-pub'')"
    by (simp add: demoRequest_def)
  have r6: "handleBootstrapAuth demoLibs demoConfig demoKeyPair demoStore
        (demoRequest '' jws-1 '' ''agent-1:client-pub'')
     = \<lparr>outcome = Respond \<lparr>StatusCode = StatusOK,
            ResponseBody = AuthJSON \<lparr>ServerPubKey = ''eph-pub''\<rparr>\<rparr>,
        store = demoTenantStore, logged = []\<rparr>"
    by code_simp
  from r1 r2 r3 r4 r5 r6 show ?thesis by simp
qed


section \<open>One call, step by step\<close>

lemma stepPhase_resume:
  "stepPhase L h c ekp st p = (st', p') \<Longrightarrow> resume L h c ekp st' p' = resume L h c ekp st p"
proof (cases p)
  case AtTokenExists
  assume "stepPhase L h c ekp st p = (st', p')"
  with AtTokenExists show ?thesis
    by (auto simp: stepTokenExists_def stepParse_def handleBootstrapAuth_def checkToken_def
          Let_def split: PrivateKey.splits sum.splits if_splits)
next
  case AtTenantExists
  assume "stepPhase L h c ekp st p = (st', p')"
  with AtTenantExists show ?thesis
    by (auto simp: stepTenantExists_def stepExchange_def clientRequest_def keyExchange_def
          split: sum.splits if_splits)
next
  case (AtCreateTenant clientReq sharedSecret)
  assume "stepPhase L h c ekp st p = (st', p')"
  with AtCreateTenant show ?thesis
    by (auto simp: stepCreateTenant_def createTenant_def Let_def split: sum.splits)
next
  case (AtKeyringStore clientReq kr)
  assume "stepPhase L h c ekp st p = (st', p')"
  with AtKeyringStore show ?thesis
    by (auto simp: stepKeyringStore_def split: sum.splits)
next
  case (AtPut krStore kr)
  assume "stepPhase L h c ekp st p = (st', p')"
  with AtPut show ?thesis
    by (auto simp: stepPut_def split: sum.splits)
next
  case (Returned out lg)
  assume "stepPhase L h c ekp st p = (st', p')"
  with Returned show ?thesis by auto
qed

lemma stepPhase_rank:
  "stepPhase L h c ekp st p = (st', p') \<Longrightarrow> rank p' \<le> rank p - 1"
  by (cases p)
     (auto simp: stepTokenExists_def stepParse_def stepTenantExists_def stepExchange_def
        stepCreateTenant_def stepKeyringStore_def stepPut_def Let_def
        split: PrivateKey.splits sum.splits if_splits)

lemma steps_resume:
  "steps L h n st call = (st', call') \<Longrightarrow>
     request call' = request call \<and> keyPair call' = keyPair call
     \<and> rank (phase call') \<le> rank (phase call) - n
     \<and> resume L h (request call) (keyPair call) st' (phase call')
         = resume L h (request call) (keyPair call) st (phase call)"
proof (induction n arbitrary: st call)
  case 0
  then show ?case by auto
next
  case (Suc n)
  obtain st1 p1 where s1: "stepPhase L h (request call) (keyPair call) st (phase call) = (st1, p1)"
    by (cases "stepPhase L h (request call) (keyPair call) st (phase call)")
  then have st: "step L h st call = (st1, call\<lparr>phase := p1\<rparr>)"
    by (simp add: step_def)
  with Suc.prems have "steps L h n st1 (call\<lparr>phase := p1\<rparr>) = (st', call')"
    by simp
  from Suc.IH [OF this] stepPhase_resume [OF s1] stepPhase_rank [OF s1]
  show ?case by auto
qed

lemma rank_0: "rank p = 0 \<Longrightarrow> \<exists>out lg. p = Returned out lg"
  by (cases p) auto

text \<open>One call alone: its five steps are the handler.\<close>

lemma steps_handleBootstrapAuth:
  "steps L h 5 st (newCall c ekp) =
     (store (handleBootstrapAuth L h ekp st c),
      \<lparr>request = c, keyPair = ekp,
       phase = Returned (outcome (handleBootstrapAuth L h ekp st c))
                 (logged (handleBootstrapAuth L h ekp st c))\<rparr>)"
proof -
  obtain st' call' where run: "steps L h 5 st (newCall c ekp) = (st', call')"
    by (cases "steps L h 5 st (newCall c ekp)")
  from steps_resume [OF run]
  have req: "request call' = c" and kp: "keyPair call' = ekp"
    and r0: "rank (phase call') = 0"
    and res: "resume L h c ekp st' (phase call') = handleBootstrapAuth L h ekp st c"
    by (simp_all add: newCall_def)
  from rank_0 [OF r0] obtain out lg where p: "phase call' = Returned out lg" by blast
  with res have "handleBootstrapAuth L h ekp st c = \<lparr>outcome = out, store = st', logged = lg\<rparr>"
    by simp
  with run req kp p show ?thesis by (cases call') simp
qed




section \<open>The race for one ClientID\<close>




























lemma returned_Some: "returned p \<noteq> None \<Longrightarrow> \<exists>out lg. p = Returned out lg"
  by (cases p) simp_all

subsection \<open>Every call returns, and when each call loses\<close>












end
